theory Spec2Isabelle
  imports Main
begin

section \<open>Python values, column labels and data frames\<close>

text \<open>
  The annotator of \<^verbatim>\<open>nlp_processor.py\<close> moves three kinds of data: a source table of
  documents (a pandas DataFrame read from a pickle file), the token records that
  \<^verbatim>\<open>process_docs\<close> collects from the spaCy documents, and the token table that
  \<^verbatim>\<open>df_from_docs\<close> assembles from them.

  A Python string is modelled by its UTF-8 encoding (a \<^typ>\<open>string\<close>): the code only
  compares and concatenates strings, and the encoding is injective. Python integers are
  \<^typ>\<open>int\<close>. A cell of a generic data frame is \<^verbatim>\<open>None\<close>, a string or an integer.
\<close>

datatype cell = PyNone | PyStr string | PyInt int

text \<open>
  Modelled from the spec: the column-name constants \<^verbatim>\<open>HASH\<close>, \<^verbatim>\<open>TEXT\<close>, ... are imported
  from \<^verbatim>\<open>topic_labeling.utils.constants\<close>, which is not part of the sources. The spec
  lists them as separate columns of the document table and of the token table, so they
  are distinct labels here; \<open>Other\<close> is any further column a source table may carry.
\<close>

datatype column =
    HASH | TOK_IDX | SENT_IDX | TEXT | TOKEN | POS | ENT_IOB | ENT_IDX | ENT_TYPE
  | NOUN_PHRASE | LEMMA | IWNLP | SENT_START | TITLE | DESCRIPTION | Other string

text \<open>
  A generic DataFrame: its column labels in order, and its rows as \<^verbatim>\<open>itertuples()\<close>
  yields them, the index value first and then one cell per column. The labels of a frame
  are taken to be distinct, and a column is found by its label.
\<close>

record frame =
  columns :: "column list"
  tuples :: "(cell \<times> cell list) list"

text \<open>Every exception the modelled code can raise.\<close>

datatype error =
    FileNotFoundError   \<comment> \<open>\<^verbatim>\<open>pd.read_pickle\<close> on a path that holds no file\<close>
  | KeyError            \<comment> \<open>selecting a column the frame does not have\<close>
  | ValueError          \<comment> \<open>unpacking a row tuple that has not exactly four entries\<close>
  | JoinTypeError       \<comment> \<open>\<^verbatim>\<open>'\n'.join\<close> on an entry that is not a string\<close>
  | FormatTypeError     \<comment> \<open>\<^verbatim>\<open>'{:d}'.format(None)\<close>\<close>
  | OperandTypeError    \<comment> \<open>\<^verbatim>\<open>None - 1\<close>\<close>
  | FileExistsError     \<comment> \<open>\<^verbatim>\<open>makedirs\<close> on the path of a regular file\<close>
  | NotADirectoryError  \<comment> \<open>a regular file where the path needs a directory\<close>
  | IsADirectoryError   \<comment> \<open>writing a file at the path of a directory\<close>
  | OSError             \<comment> \<open>any other refusal of the operating system\<close>

section \<open>The pipeline's documents and the token records\<close>

text \<open>
  The spaCy pipeline is external: \<^verbatim>\<open>self.nlp\<close> is a parameter \<open>nlp\<close> of the model, a
  function from the text to a document. A document is its tokens in order and its noun
  chunks in emission order, each chunk a span of tokens. Of a token the code reads the
  attributes below; \<^verbatim>\<open>token._.iwnlp_lemmas\<close> is the dictionary lemma or \<^verbatim>\<open>None\<close>,
  \<^verbatim>\<open>token.is_sent_start\<close> is \<^verbatim>\<open>True\<close>, \<^verbatim>\<open>False\<close> or \<^verbatim>\<open>None\<close>.
\<close>

record token =
  tok_text :: string
  tok_lemma :: string
  tok_iwnlp_lemmas :: "string option"
  tok_pos :: string
  tok_i :: int
  tok_is_sent_start :: "bool option"
  tok_ent_iob :: string
  tok_ent_type :: string

record doc =
  doc_tokens :: "token list"
  noun_chunks :: "token list list"

text \<open>
  One entry of the list \<^verbatim>\<open>attr\<close> of \<^verbatim>\<open>process_docs\<close> (lines 116-121): the ten values in
  the order of the columns that \<^verbatim>\<open>df_from_docs\<close> gives them.
\<close>

record attr_row =
  a_hash :: cell
  a_text :: string
  a_lemma :: string
  a_iwnlp :: "string option"
  a_pos :: string
  a_tok_idx :: int
  a_sent_start :: int
  a_ent_iob :: string
  a_ent_type :: string
  a_noun_phrase :: int

text \<open>
  The table \<^verbatim>\<open>df[FIELDS]\<close> that \<^verbatim>\<open>df_from_docs\<close> returns, column by column, in the order of
  \<^verbatim>\<open>FIELDS\<close>. The \<^verbatim>\<open>TOKEN\<close> column is created by a masked assignment, so a cell of it
  may be missing (NaN): \<open>None\<close>.
\<close>

record token_table =
  hash_col :: "cell list"
  tok_idx_col :: "int list"
  sent_idx_col :: "int list"
  text_col :: "string list"
  token_col :: "string option list"
  pos_col :: "string list"
  ent_iob_col :: "string list"
  ent_idx_col :: "int list"
  ent_type_col :: "string list"
  noun_phrase_col :: "int list"

section \<open>Assembling the token table: \<^verbatim>\<open>df_from_docs\<close>\<close>

text \<open>\<^verbatim>\<open>Series.isnull()\<close> on one value.\<close>

definition isnull :: "'a option \<Rightarrow> bool" where
  "isnull v = (v = None)"

text \<open>
  \<^verbatim>\<open>df.loc[mask, C] = series\<close>: the rows selected by the mask take the value that the
  series has in the same row (pandas aligns on the index), the others keep theirs.
\<close>

fun loc_assign :: "bool list \<Rightarrow> 'a list \<Rightarrow> 'a list \<Rightarrow> 'a list" where
  "loc_assign (m # ms) (c # cs) (v # vs) = (if m then v else c) # loc_assign ms cs vs"
| "loc_assign ms cs vs = cs"

text \<open>\<^verbatim>\<open>df.loc[mask, C] = value\<close> with one value for all selected rows.\<close>

fun loc_assign_scalar :: "bool list \<Rightarrow> 'a list \<Rightarrow> 'a \<Rightarrow> 'a list" where
  "loc_assign_scalar (m # ms) (c # cs) v = (if m then v else c) # loc_assign_scalar ms cs v"
| "loc_assign_scalar ms cs v = cs"

text \<open>
  \<^verbatim>\<open>Series.cumsum()\<close>: the running sum in row order. pandas adds in 64-bit integers; the
  sums of the model are those of pandas as long as they stay below \<open>2\<^sup>6\<^sup>3\<close>, as the sums
  of flags that are 0 or 1 do for every table that can be held in memory. The properties
  of the sentence index are stated for such flags.
\<close>

fun cumsum_from :: "int \<Rightarrow> int list \<Rightarrow> int list" where
  "cumsum_from acc [] = []"
| "cumsum_from acc (x # xs) = (acc + x) # cumsum_from (acc + x) xs"

definition cumsum :: "int list \<Rightarrow> int list" where
  "cumsum xs = cumsum_from 0 xs"

text \<open>
  The list of line 166, \<^verbatim>\<open>list(...)\<close> of the seven characters \<^verbatim>\<open>[ ] < > /\<close>, en dash
  and \<^verbatim>\<open>%\<close>: seven one-character strings. The en dash (U+2013) is the three bytes
  E2 80 93 in UTF-8.
\<close>

definition punct_symbols :: "string list" where
  "punct_symbols =
     [''['', '']'', ''<'', ''>'', ''/'', [CHR 0xE2, CHR 0x80, CHR 0x93], ''%'']"

text \<open>
  \<^verbatim>\<open>df_from_docs\<close> (lines 148-179). The constant \<^verbatim>\<open>PUNCT\<close> is imported from a module that
  is not part of the sources; it is the parameter \<open>punct\<close>. The three \<^verbatim>\<open>astype("category")\<close>
  conversions change the representation of a column, not its values.
\<close>

definition df_from_docs :: "string \<Rightarrow> attr_row list \<Rightarrow> token_table" where
  "df_from_docs punct docs =
     (let iwnlp = map a_iwnlp docs;
          lemma = map a_lemma docs;
          ent_iob = map a_ent_iob docs;
          mask_iwnlp = map (\<lambda>v. \<not> isnull v) iwnlp;
          token0 = loc_assign mask_iwnlp (replicate (length docs) None) iwnlp;
          token = loc_assign (map Not mask_iwnlp) token0 (map Some lemma);
          mask_punct = map (\<lambda>v. v \<in> set (map Some punct_symbols)) token;
          pos = loc_assign_scalar mask_punct (map a_pos docs) punct;
          sent_idx = cumsum (map a_sent_start docs);
          ent_idx0 = map (\<lambda>v. v = ''B'') ent_iob;
          ent_idx1 = cumsum (map (\<lambda>b. if b then 1 else 0) ent_idx0);
          ent_idx = loc_assign_scalar (map (\<lambda>v. v = ''O'') ent_iob) ent_idx1 0
      in \<lparr> hash_col = map a_hash docs,
           tok_idx_col = map a_tok_idx docs,
           sent_idx_col = sent_idx,
           text_col = map a_text docs,
           token_col = token,
           pos_col = pos,
           ent_iob_col = ent_iob,
           ent_idx_col = ent_idx,
           ent_type_col = map a_ent_type docs,
           noun_phrase_col = map a_noun_phrase docs \<rparr>)"

section \<open>Annotating the documents: \<^verbatim>\<open>process_docs\<close>\<close>

text \<open>
  Python truthiness of a cell, as \<^verbatim>\<open>filter(None, ...)\<close> tests it: \<^verbatim>\<open>None\<close>, the empty
  string and the integer 0 are false.
\<close>

fun truthy :: "cell \<Rightarrow> bool" where
  "truthy PyNone = False"
| "truthy (PyStr s) = (s \<noteq> [])"
| "truthy (PyInt n) = (n \<noteq> 0)"

text \<open>
  \<^verbatim>\<open>'\n'.join(xs)\<close>: the strings separated by a line feed; an entry that is not a string
  raises a TypeError.
\<close>

fun join_lines :: "cell list \<Rightarrow> error + string" where
  "join_lines [] = Inr []"
| "join_lines [PyStr s] = Inr s"
| "join_lines (PyStr s # x # xs) =
     (case join_lines (x # xs) of Inl e \<Rightarrow> Inl e | Inr r \<Rightarrow> Inr (s @ [CHR 0x0A] @ r))"
| "join_lines (c # xs) = Inl JoinTypeError"

text \<open>
  Lines 104-106: unpack the row tuple into \<^verbatim>\<open>key, title, descr, text\<close> (a ValueError
  unless it has the index and three cells), join the non-empty fields and run the
  pipeline on the text.
\<close>

definition build_doc :: "(string \<Rightarrow> doc) \<Rightarrow> cell \<times> cell list \<Rightarrow> error + doc" where
  "build_doc nlp kv =
     (case snd kv of
        [title, descr, text] \<Rightarrow>
          (case join_lines (filter truthy [title, descr, text]) of
             Inl e \<Rightarrow> Inl e
           | Inr s \<Rightarrow> Inr (nlp s))
      | _ \<Rightarrow> Inl ValueError)"

text \<open>
  Lines 109-113: the loop over \<^verbatim>\<open>doc.noun_chunks\<close>. It carries the counter \<^verbatim>\<open>chunk_idx\<close>
  and the dictionary \<^verbatim>\<open>noun_phrases\<close> from token index to chunk number; the inner loop
  stores the current counter for every token of the chunk.
\<close>

fun chunk_tokens :: "int \<Rightarrow> (int \<rightharpoonup> int) \<Rightarrow> token list \<Rightarrow> (int \<rightharpoonup> int)" where
  "chunk_tokens chunk_idx noun_phrases [] = noun_phrases"
| "chunk_tokens chunk_idx noun_phrases (token # chunk) =
     chunk_tokens chunk_idx (noun_phrases(tok_i token \<mapsto> chunk_idx)) chunk"

fun chunk_loop :: "int \<Rightarrow> (int \<rightharpoonup> int) \<Rightarrow> token list list \<Rightarrow> int \<times> (int \<rightharpoonup> int)" where
  "chunk_loop chunk_idx noun_phrases [] = (chunk_idx, noun_phrases)"
| "chunk_loop chunk_idx noun_phrases (chunk # chunks) =
     chunk_loop (chunk_idx + 1) (chunk_tokens (chunk_idx + 1) noun_phrases chunk) chunks"

text \<open>Lines 116-121: the record of one token; \<^verbatim>\<open>noun_phrases.get(token.i, 0)\<close>.\<close>

definition token_attr :: "cell \<Rightarrow> (int \<rightharpoonup> int) \<Rightarrow> token \<Rightarrow> attr_row" where
  "token_attr key noun_phrases token =
     \<lparr> a_hash = key,
       a_text = tok_text token,
       a_lemma = tok_lemma token,
       a_iwnlp = tok_iwnlp_lemmas token,
       a_pos = tok_pos token,
       a_tok_idx = tok_i token,
       a_sent_start = (if tok_is_sent_start token = Some True \<or> tok_i token = 0 then 1 else 0),
       a_ent_iob = tok_ent_iob token,
       a_ent_type = tok_ent_type token,
       a_noun_phrase = (case noun_phrases (tok_i token) of Some n \<Rightarrow> n | None \<Rightarrow> 0) \<rparr>"

text \<open>
  Lines 93-123: the loop over the rows of the source table, with its state \<^verbatim>\<open>chunk_idx\<close>
  and \<^verbatim>\<open>docs\<close>. An exception of one document ends the run.
\<close>

fun process_loop ::
  "(string \<Rightarrow> doc) \<Rightarrow> int \<Rightarrow> attr_row list \<Rightarrow> (cell \<times> cell list) list
     \<Rightarrow> error + (int \<times> attr_row list)" where
  "process_loop nlp chunk_idx docs [] = Inr (chunk_idx, docs)"
| "process_loop nlp chunk_idx docs (kv # kvs) =
     (case build_doc nlp kv of
        Inl e \<Rightarrow> Inl e
      | Inr doc \<Rightarrow>
          (case chunk_loop chunk_idx Map.empty (noun_chunks doc) of
             (chunk_idx', noun_phrases) \<Rightarrow>
               process_loop nlp chunk_idx'
                 (docs @ map (token_attr (fst kv) noun_phrases) (doc_tokens doc)) kvs))"

definition process_docs :: "string \<Rightarrow> (string \<Rightarrow> doc) \<Rightarrow> frame \<Rightarrow> error + token_table" where
  "process_docs punct nlp text_df =
     (case process_loop nlp 0 [] (tuples text_df) of
        Inl e \<Rightarrow> Inl e
      | Inr (chunk_idx, docs) \<Rightarrow> Inr (df_from_docs punct docs))"

section \<open>Files, paths and formatting\<close>

text \<open>
  The constants \<^verbatim>\<open>NLP_DIR\<close>, \<^verbatim>\<open>ETL_DIR\<close>, \<^verbatim>\<open>VOC_DIR\<close> and \<^verbatim>\<open>PUNCT\<close> are imported from
  \<^verbatim>\<open>topic_labeling.utils.constants\<close>, which is not part of the sources: they are
  parameters of the model, collected in one record.
\<close>

record constants =
  NLP_DIR :: string
  ETL_DIR :: string
  VOC_DIR :: string
  PUNCT :: string

text \<open>
  The part of the file system the code touches: the pickle files (a path holds the
  DataFrame that was pickled there), the directories that exist, the directories a
  vocabulary was written to, and the paths that the operating system does not let the
  process create or write (no permission, a read-only or a full file system). Paths are
  taken as they are written, without \<^verbatim>\<open>.\<close>, \<^verbatim>\<open>..\<close> or symbolic links; the empty path of a
  directory is the current directory, which exists, and so does the root.
\<close>

record world =
  files :: "string \<rightharpoonup> frame"
  dirs :: "string set"
  vocab_at :: "string set"
  refused :: "string set"

text \<open>\<^verbatim>\<open>s.startswith(p)\<close> and \<^verbatim>\<open>sub in s\<close> on strings.\<close>

fun starts_with :: "string \<Rightarrow> string \<Rightarrow> bool" where
  "starts_with [] s = True"
| "starts_with (p # ps) [] = False"
| "starts_with (p # ps) (c # cs) = (p = c \<and> starts_with ps cs)"

fun str_contains :: "string \<Rightarrow> string \<Rightarrow> bool" where
  "str_contains sub [] = (sub = [])"
| "str_contains sub (c # cs) = (starts_with sub (c # cs) \<or> str_contains sub cs)"

text \<open>
  \<^verbatim>\<open>os.path.join(a, b)\<close> of \<^verbatim>\<open>posixpath\<close>: an absolute \<open>b\<close> replaces \<open>a\<close>; otherwise the two
  are joined by one slash, which is left out when \<open>a\<close> is empty or ends with a slash.
\<close>

definition join :: "string \<Rightarrow> string \<Rightarrow> string" where
  "join a b =
     (if starts_with ''/'' b then b
      else if a = [] \<or> last a = CHR ''/'' then a @ b
      else a @ ''/'' @ b)"

text \<open>
  \<^verbatim>\<open>os.path.dirname(p)\<close> of \<^verbatim>\<open>posixpath\<close>: the part of \<open>p\<close> up to its last slash, without
  the slashes at its end unless it consists of slashes only.
\<close>

definition rstrip_slash :: "string \<Rightarrow> string" where
  "rstrip_slash s = rev (dropWhile (\<lambda>ch. ch = CHR ''/'') (rev s))"

definition dirname :: "string \<Rightarrow> string" where
  "dirname p =
     (let head = rev (dropWhile (\<lambda>ch. ch \<noteq> CHR ''/'') (rev p))
      in if list_all (\<lambda>ch. ch = CHR ''/'') head then head else rstrip_slash head)"

definition dir_exists :: "world \<Rightarrow> string \<Rightarrow> bool" where
  "dir_exists w p = (list_all (\<lambda>ch. ch = CHR ''/'') p \<or> p \<in> dirs w)"

text \<open>
  \<^verbatim>\<open>os.makedirs(d, exist_ok=True)\<close>. The empty path raises a FileNotFoundError. Otherwise
  the directories on the way to \<open>d\<close> (the part of the path before each of its slashes)
  and \<open>d\<close> itself are visited in order: an existing directory is kept, a regular file in
  the place of \<open>d\<close> raises a FileExistsError and one on the way to it a
  NotADirectoryError, a path that the operating system refuses raises an OSError, and
  any other directory is created. The directories created before an exception stay.
\<close>

fun prefixes_from :: "string \<Rightarrow> string \<Rightarrow> string list" where
  "prefixes_from seen [] = [seen]"
| "prefixes_from seen (ch # rest) =
     (if ch = CHR ''/'' then seen # prefixes_from (seen @ [ch]) rest
      else prefixes_from (seen @ [ch]) rest)"

fun make_each :: "world \<Rightarrow> string list \<Rightarrow> error option \<times> world" where
  "make_each w [] = (None, w)"
| "make_each w (p # ps) =
     (if dir_exists w p then make_each w ps
      else if files w p \<noteq> None
      then (Some (if ps = [] then FileExistsError else NotADirectoryError), w)
      else if p \<in> refused w then (Some OSError, w)
      else make_each (w \<lparr> dirs := insert p (dirs w) \<rparr>) ps)"

definition makedirs :: "world \<Rightarrow> string \<Rightarrow> error option \<times> world" where
  "makedirs w d =
     (if d = [] then (Some FileNotFoundError, w)
      else make_each w (prefixes_from [] (rstrip_slash d)))"

text \<open>
  \<^verbatim>\<open>df.to_pickle(filename)\<close>: the file is opened for writing and the frame is pickled into
  it. Opening raises a NotADirectoryError when the parent of the path is a regular file,
  a FileNotFoundError when the parent directory does not exist, an IsADirectoryError when
  the path is that of a directory, and an OSError when the operating system refuses the
  path; then nothing is written.
\<close>

definition to_pickle :: "world \<Rightarrow> string \<Rightarrow> frame \<Rightarrow> error option \<times> world" where
  "to_pickle w filename df =
     (if filename = [] then (Some FileNotFoundError, w)
      else if files w (dirname filename) \<noteq> None then (Some NotADirectoryError, w)
      else if \<not> dir_exists w (dirname filename) then (Some FileNotFoundError, w)
      else if filename \<in> dirs w then (Some IsADirectoryError, w)
      else if filename \<in> refused w then (Some OSError, w)
      else (None, w \<lparr> files := (files w)(filename \<mapsto> df) \<rparr>))"

text \<open>\<^verbatim>\<open>'{:d}'.format(n)\<close> for an integer: its decimal digits, with a minus sign if negative.\<close>

fun digits :: "nat \<Rightarrow> string" where
  "digits n =
     (if n < 10 then [''0123456789'' ! n]
      else digits (n div 10) @ [''0123456789'' ! (n mod 10)])"

declare digits.simps [simp del]

definition format_d :: "int \<Rightarrow> string" where
  "format_d n = (if n < 0 then ''-'' @ digits (nat (- n)) else digits (nat n))"

section \<open>Loading and storing: \<^verbatim>\<open>read\<close> and \<^verbatim>\<open>store\<close>\<close>

text \<open>
  \<^verbatim>\<open>df[[c1, c2, c3]]\<close>: the frame with just these columns, in this order; a KeyError if one
  of them is missing. The cell of a column is found by the column's label.
\<close>

definition cell_of :: "column list \<Rightarrow> cell list \<Rightarrow> column \<Rightarrow> cell" where
  "cell_of cols vs c = (case map_of (zip cols vs) c of Some v \<Rightarrow> v | None \<Rightarrow> PyNone)"

definition getitem_columns :: "frame \<Rightarrow> column list \<Rightarrow> error + frame" where
  "getitem_columns df cols =
     (if set cols \<subseteq> set (columns df)
      then Inr \<lparr> columns = cols,
                 tuples = map (\<lambda>(k, vs). (k, map (cell_of (columns df) vs) cols)) (tuples df) \<rparr>
      else Inl KeyError)"

text \<open>
  \<^verbatim>\<open>.iloc[start:stop]\<close>: Python's slice of the rows. A negative bound counts from the end,
  a bound beyond either end is clipped, and no \<^verbatim>\<open>stop\<close> means the end.
\<close>

definition slice_index :: "int \<Rightarrow> int \<Rightarrow> int" where
  "slice_index n i = (if i < 0 then max 0 (n + i) else min n i)"

definition iloc :: "'a list \<Rightarrow> int \<Rightarrow> int option \<Rightarrow> 'a list" where
  "iloc xs start stop =
     (let n = int (length xs);
          lo = slice_index n start;
          hi = (case stop of None \<Rightarrow> n | Some s \<Rightarrow> slice_index n s)
      in take (nat (hi - lo)) (drop (nat lo) xs))"

text \<open>
  \<^verbatim>\<open>read\<close> (lines 135-145). The log line and the final \<^verbatim>\<open>copy()\<close> do not change the
  result.
\<close>

definition read :: "constants \<Rightarrow> world \<Rightarrow> string \<Rightarrow> int \<Rightarrow> int option \<Rightarrow> error + frame" where
  "read c w f start stop =
     (case files w f of
        None \<Rightarrow> Inl FileNotFoundError
      | Some pickled \<Rightarrow>
          (case getitem_columns pickled [TITLE, DESCRIPTION, TEXT] of
             Inl e \<Rightarrow> Inl e
           | Inr selected \<Rightarrow>
               (let df = selected \<lparr> tuples := iloc (tuples selected) start stop \<rparr> in
                if str_contains ''dewiki'' f
                then (case files w (join (ETL_DIR c) ''dewiki_good_ids.pickle'') of
                        None \<Rightarrow> Inl FileNotFoundError
                      | Some good_ids \<Rightarrow>
                          Inr (df \<lparr> tuples :=
                                 filter (\<lambda>kv. fst kv \<in> set (map fst (tuples good_ids)))
                                   (tuples df) \<rparr>))
                else Inr df)))"

text \<open>
  \<^verbatim>\<open>store\<close> (lines 127-133): create the output directory and pickle the frame at
  \<^verbatim>\<open>join(NLP_DIR, corpus + suffix + '.pickle')\<close>. The result is the exception that ended
  the call, if any, and the file system it leaves behind.
\<close>

definition store ::
  "constants \<Rightarrow> world \<Rightarrow> string \<Rightarrow> frame \<Rightarrow> string \<Rightarrow> error option \<times> world" where
  "store c w corpus df suffix =
     (case makedirs w (NLP_DIR c) of
        (Some e, w1) \<Rightarrow> (Some e, w1)
      | (None, w1) \<Rightarrow> to_pickle w1 (join (NLP_DIR c) (corpus @ suffix @ ''.pickle'')) df)"

section \<open>The run: \<^verbatim>\<open>read_process_store\<close>\<close>

text \<open>\<^verbatim>\<open>FIELDS\<close> (line 19).\<close>

definition FIELDS :: "column list" where
  "FIELDS = [HASH, TOK_IDX, SENT_IDX, TEXT, TOKEN, POS, ENT_IOB, ENT_IDX, ENT_TYPE, NOUN_PHRASE]"

text \<open>
  The token table as the DataFrame it is: the columns \<^verbatim>\<open>FIELDS\<close>, the default index
  0, 1, 2, ..., and every value as a cell. All columns of a table that \<^verbatim>\<open>df_from_docs\<close>
  builds have the same length.
\<close>

definition opt_cell :: "string option \<Rightarrow> cell" where
  "opt_cell v = (case v of None \<Rightarrow> PyNone | Some s \<Rightarrow> PyStr s)"

definition frame_of :: "token_table \<Rightarrow> frame" where
  "frame_of t =
     \<lparr> columns = FIELDS,
       tuples = map (\<lambda>n. (PyInt (int n),
                  [hash_col t ! n, PyInt (tok_idx_col t ! n), PyInt (sent_idx_col t ! n),
                   PyStr (text_col t ! n), opt_cell (token_col t ! n), PyStr (pos_col t ! n),
                   PyStr (ent_iob_col t ! n), PyInt (ent_idx_col t ! n),
                   PyStr (ent_type_col t ! n), PyInt (noun_phrase_col t ! n)]))
                [0 ..< length (hash_col t)] \<rparr>"

text \<open>
  The test \<^verbatim>\<open>start or stop\<close> (lines 48 and 65): \<^verbatim>\<open>start\<close> is an integer, \<^verbatim>\<open>stop\<close> an integer
  or \<^verbatim>\<open>None\<close>; 0 and \<^verbatim>\<open>None\<close> are false.
\<close>

definition start_or_stop :: "int \<Rightarrow> int option \<Rightarrow> bool" where
  "start_or_stop start stop = (start \<noteq> 0 \<or> (case stop of None \<Rightarrow> False | Some s \<Rightarrow> s \<noteq> 0))"

text \<open>
  Line 48: the text \<^verbatim>\<open>slicing\<close> of the log line. Formatting \<^verbatim>\<open>None\<close> with \<^verbatim>\<open>{:d}\<close> raises
  a TypeError.
\<close>

definition slicing :: "int \<Rightarrow> int option \<Rightarrow> error + string" where
  "slicing start stop =
     (if start_or_stop start stop
      then (case stop of
              None \<Rightarrow> Inl FormatTypeError
            | Some s \<Rightarrow> Inr (''['' @ format_d start @ '':'' @ format_d s @ '']''))
      else Inr [])"

text \<open>Lines 65-68: the suffix of the file name; \<^verbatim>\<open>stop-1\<close> raises a TypeError on \<^verbatim>\<open>None\<close>.\<close>

definition nlp_suffix :: "int \<Rightarrow> int option \<Rightarrow> error + string" where
  "nlp_suffix start stop =
     (if start_or_stop start stop
      then (case stop of
              None \<Rightarrow> Inl OperandTypeError
            | Some s \<Rightarrow> Inr (''_'' @ format_d start @ ''_'' @ format_d (s - 1) @ ''_nlp''))
      else Inr ''_nlp'')"

text \<open>
  Lines 70-75: create the directory \<^verbatim>\<open>VOC_DIR\<close> and write the vocabulary into it, which
  the operating system may refuse.
\<close>

definition vocab_to_disk_step :: "constants \<Rightarrow> world \<Rightarrow> error option \<times> world" where
  "vocab_to_disk_step c w =
     (case makedirs w (VOC_DIR c) of
        (Some e, w1) \<Rightarrow> (Some e, w1)
      | (None, w1) \<Rightarrow>
          (if VOC_DIR c \<in> refused w1 then (Some OSError, w1)
           else (None, w1 \<lparr> vocab_at := insert (VOC_DIR c) (vocab_at w1) \<rparr>)))"

text \<open>
  \<^verbatim>\<open>read_process_store\<close> (lines 41-78). The result is the exception that ended the run,
  if any, and the file system the run leaves behind. The log lines, the calls of the
  garbage collector, the preview (\<^verbatim>\<open>tprint\<close>) and the timing have no effect on either;
  of the log lines only the expression of line 48 can raise, and it is kept.
\<close>

definition read_process_store ::
  "constants \<Rightarrow> (string \<Rightarrow> doc) \<Rightarrow> world \<Rightarrow> string \<Rightarrow> string \<Rightarrow> bool \<Rightarrow> bool \<Rightarrow> int \<Rightarrow> int option
     \<Rightarrow> error option \<times> world" where
  "read_process_store c nlp w file_path corpus_name store_flag vocab_to_disk start stop =
     (case slicing start stop of
        Inl e \<Rightarrow> (Some e, w)
      | Inr slicing_text \<Rightarrow>
          (case read c w file_path start stop of
             Inl e \<Rightarrow> (Some e, w)
           | Inr text_df \<Rightarrow>
               (case process_docs (PUNCT c) nlp text_df of
                  Inl e \<Rightarrow> (Some e, w)
                | Inr df \<Rightarrow>
                    (case (if store_flag
                           then (case nlp_suffix start stop of
                                   Inl e \<Rightarrow> (Some e, w)
                                 | Inr suffix \<Rightarrow> store c w corpus_name (frame_of df) suffix)
                           else (None, w)) of
                       (Some e, w1) \<Rightarrow> (Some e, w1)
                     | (None, w1) \<Rightarrow>
                         (if vocab_to_disk then vocab_to_disk_step c w1 else (None, w1))))))"

section \<open>Notions of the statements\<close>

text \<open>The token indices that a chunk covers.\<close>

definition chunk_indices :: "token list \<Rightarrow> int set" where
  "chunk_indices chunk = tok_i ` set chunk"

text \<open>
  For the documents \<open>ds\<close> of a batch, in order: the number of chunks that the documents
  before document \<open>j\<close> have, the number of chunk \<open>k\<close> of document \<open>j\<close> in the emission
  order of the whole batch (counting from 1), and the number of tokens of the documents
  before document \<open>j\<close>, which is the row of the table where document \<open>j\<close> begins.
\<close>

definition chunks_before :: "doc list \<Rightarrow> nat \<Rightarrow> int" where
  "chunks_before ds j = (\<Sum>d\<leftarrow>take j ds. int (length (noun_chunks d)))"

definition chunk_number :: "doc list \<Rightarrow> nat \<Rightarrow> nat \<Rightarrow> int" where
  "chunk_number ds j k = chunks_before ds j + int k + 1"

definition row_offset :: "doc list \<Rightarrow> nat \<Rightarrow> nat" where
  "row_offset ds j = (\<Sum>d\<leftarrow>take j ds. length (doc_tokens d))"


section \<open>Example inputs\<close>

text \<open>
  A batch of two documents, the first with the title "Cat Dog" only, the second with
  the description "Run." only, and a pipeline that knows these two texts.
\<close>

definition example_token ::
  "string \<Rightarrow> string option \<Rightarrow> string \<Rightarrow> int \<Rightarrow> bool option \<Rightarrow> string \<Rightarrow> string \<Rightarrow> token" where
  "example_token word dict_lemma pos n start iob typ =
     \<lparr> tok_text = word, tok_lemma = word, tok_iwnlp_lemmas = dict_lemma, tok_pos = pos,
       tok_i = n, tok_is_sent_start = start, tok_ent_iob = iob, tok_ent_type = typ \<rparr>"

definition cat_dog_doc :: doc where
  "cat_dog_doc =
     \<lparr> doc_tokens = [example_token ''Cat'' (Some ''cat'') ''NOUN'' 0 None ''B'' ''ANIMAL'',
                     example_token ''Dog'' None ''NOUN'' 1 (Some False) ''I'' ''ANIMAL''],
       noun_chunks = [[example_token ''Cat'' (Some ''cat'') ''NOUN'' 0 None ''B'' ''ANIMAL'',
                       example_token ''Dog'' None ''NOUN'' 1 (Some False) ''I'' ''ANIMAL'']] \<rparr>"

definition run_doc :: doc where
  "run_doc =
     \<lparr> doc_tokens = [example_token ''Run'' None ''VERB'' 0 (Some True) ''O'' [],
                     example_token ''.'' None ''PUNCT'' 1 (Some False) ''O'' []],
       noun_chunks = [[example_token ''Run'' None ''VERB'' 0 (Some True) ''O'' []]] \<rparr>"

definition example_nlp :: "string \<Rightarrow> doc" where
  "example_nlp s =
     (if s = ''Cat Dog'' then cat_dog_doc
      else if s = ''Run.'' then run_doc
      else \<lparr> doc_tokens = [], noun_chunks = [] \<rparr>)"

definition example_text_df :: frame where
  "example_text_df =
     \<lparr> columns = [TITLE, DESCRIPTION, TEXT],
       tuples = [(PyInt 101, [PyStr ''Cat Dog'', PyNone, PyNone]),
                 (PyInt 102, [PyStr [], PyStr ''Run.'', PyStr []])] \<rparr>"

text \<open>
  A pipeline whose second chunk overlaps the first: the chunks of "Cat Dog" are the
  span of both tokens and then the span of the second token alone.
\<close>

definition overlap_nlp :: "string \<Rightarrow> doc" where
  "overlap_nlp s =
     \<lparr> doc_tokens = doc_tokens cat_dog_doc,
       noun_chunks = [doc_tokens cat_dog_doc, [doc_tokens cat_dog_doc ! 1]] \<rparr>"

definition cat_dog_text_df :: frame where
  "cat_dog_text_df =
     \<lparr> columns = [TITLE, DESCRIPTION, TEXT],
       tuples = [(PyInt 101, [PyStr ''Cat Dog'', PyNone, PyNone])] \<rparr>"

text \<open>Token records of a batch of two documents, as \<^verbatim>\<open>process_docs\<close> collects them.\<close>

definition example_record ::
  "int \<Rightarrow> string \<Rightarrow> string option \<Rightarrow> string \<Rightarrow> int \<Rightarrow> int \<Rightarrow> string \<Rightarrow> attr_row" where
  "example_record key word dict_lemma pos n start iob =
     \<lparr> a_hash = PyInt key, a_text = word, a_lemma = word, a_iwnlp = dict_lemma, a_pos = pos,
       a_tok_idx = n, a_sent_start = start, a_ent_iob = iob, a_ent_type = [],
       a_noun_phrase = 0 \<rparr>"

definition example_rows :: "attr_row list" where
  "example_rows =
     [example_record 101 ''Angela'' None ''PROPN'' 0 1 ''B'',
      example_record 101 ''Merkel'' None ''PROPN'' 1 0 ''I'',
      example_record 101 ''spricht'' (Some ''sprechen'') ''VERB'' 2 0 ''O'',
      example_record 102 ''Berlin'' None ''PROPN'' 0 1 ''B'',
      example_record 102 ''%'' None ''NOUN'' 1 0 ''O'']"

text \<open>
  Records whose resolved tokens are a bracket, an en dash, a percent sign that the
  dictionary gives for the word, and a hyphen, which is none of the seven symbols.
\<close>

definition symbol_rows :: "attr_row list" where
  "symbol_rows =
     [example_record 101 ''['' None ''X'' 0 1 ''O'',
      example_record 101 [CHR 0xE2, CHR 0x80, CHR 0x93] None ''NOUN'' 1 0 ''O'',
      example_record 101 ''Prozent'' (Some ''%'') ''NOUN'' 2 0 ''O'',
      example_record 101 ''-'' None ''SYM'' 3 0 ''O'']"

text \<open>A table whose first token is tagged Inside.\<close>

definition inside_first_rows :: "attr_row list" where
  "inside_first_rows = [example_record 101 ''Merkel'' None ''PROPN'' 0 1 ''I'']"

text \<open>
  The constants, a source table of twenty documents with one more column than the
  three that are read, and file systems that hold it under two names; the second name
  makes \<^verbatim>\<open>read\<close> consult the list of good identifiers, which here has the documents 0
  and 7 only.
\<close>

definition example_constants :: constants where
  "example_constants =
     \<lparr> NLP_DIR = ''nlp'', ETL_DIR = ''etl'', VOC_DIR = ''vocab'', PUNCT = ''PUNCT'' \<rparr>"

definition source20 :: frame where
  "source20 =
     \<lparr> columns = [Other ''dataset'', TITLE, DESCRIPTION, TEXT],
       tuples = map (\<lambda>n. (PyInt (int n), [PyStr ''news'', PyStr ''Cat Dog'', PyNone, PyNone]))
                  [0 ..< 20] \<rparr>"

definition good_ids_frame :: frame where
  "good_ids_frame = \<lparr> columns = [], tuples = [(PyInt 0, []), (PyInt 7, [])] \<rparr>"

definition example_world :: world where
  "example_world =
     \<lparr> files = [''etl/corpus.pickle'' \<mapsto> source20,
                ''etl/dewiki.pickle'' \<mapsto> source20,
                ''etl/dewiki_good_ids.pickle'' \<mapsto> good_ids_frame],
       dirs = {''etl''},
       vocab_at = {},
       refused = {} \<rparr>"

section \<open>Properties of the token table\<close>

subsection \<open>Masked assignment and running sums\<close>

lemma loc_assign_scalar_map:
  "loc_assign_scalar (map f xs) (map c xs) v = map (\<lambda>x. if f x then v else c x) xs"
  by (induction xs) simp_all

lemma length_cumsum_from: "length (cumsum_from acc xs) = length xs"
  by (induction xs arbitrary: acc) simp_all

lemma nth_cumsum_from:
  "i < length xs \<Longrightarrow> cumsum_from acc xs ! i = acc + sum_list (take (Suc i) xs)"
proof (induction xs arbitrary: acc i)
  case Nil
  then show ?case by simp
next
  case (Cons x xs)
  show ?case
  proof (cases i)
    case 0
    then show ?thesis by simp
  next
    case (Suc j)
    with Cons.prems have "j < length xs" by simp
    from Cons.IH [OF this, of "acc + x"] Suc show ?thesis by (simp add: add.assoc)
  qed
qed

lemma token_choice:
  "loc_assign (map Not (map (\<lambda>v. \<not> isnull v) (map a_iwnlp docs)))
        (loc_assign (map (\<lambda>v. \<not> isnull v) (map a_iwnlp docs))
           (replicate (length docs) None) (map a_iwnlp docs))
        (map Some (map a_lemma docs)) =
   map (\<lambda>r. Some (case a_iwnlp r of Some l \<Rightarrow> l | None \<Rightarrow> a_lemma r)) docs"
  by (induction docs) (simp_all add: isnull_def split: option.splits)

lemma token_col_rows:
  "token_col (df_from_docs punct docs) =
     map (\<lambda>r. Some (case a_iwnlp r of Some l \<Rightarrow> l | None \<Rightarrow> a_lemma r)) docs"
  by (simp add: df_from_docs_def Let_def token_choice del: map_map)

lemma length_loc_assign_scalar: "length (loc_assign_scalar ms cs v) = length cs"
  by (induction ms cs v rule: loc_assign_scalar.induct) simp_all

lemma nth_loc_assign_scalar:
  "length ms = length cs \<Longrightarrow> i < length cs \<Longrightarrow>
     loc_assign_scalar ms cs v ! i = (if ms ! i then v else cs ! i)"
proof (induction ms cs v arbitrary: i rule: loc_assign_scalar.induct)
  case (1 m ms c cs v)
  then show ?case by (cases i) simp_all
qed simp_all

lemma sum_list_indicator:
  "sum_list (map (\<lambda>x. if P x then 1 else 0) xs) = int (length (filter P xs))"
  by (induction xs) simp_all

lemma count_take_Suc:
  "i < length xs \<Longrightarrow>
     length (filter P (take (Suc i) xs)) =
     length (filter P (take i xs)) + (if P (xs ! i) then 1 else 0)"
  by (simp add: take_Suc_conv_app_nth)

lemma count_take_mono:
  "j \<le> i \<Longrightarrow> length (filter P (take j xs)) \<le> length (filter P (take i xs))"
proof -
  assume "j \<le> i"
  then have "take i xs = take j xs @ take (i - j) (drop j xs)"
    using take_add [of j "i - j" xs] by simp
  then show ?thesis by simp
qed

lemma count_take_between:
  "j \<le> i \<Longrightarrow> i \<le> length xs \<Longrightarrow> (\<forall>k. j \<le> k \<and> k < i \<longrightarrow> \<not> P (xs ! k)) \<Longrightarrow>
     length (filter P (take i xs)) = length (filter P (take j xs))"
proof (induction i)
  case 0
  then show ?case by simp
next
  case (Suc i)
  show ?case
  proof (cases "j = Suc i")
    case True
    then show ?thesis by simp
  next
    case False
    with Suc.prems have ji: "j \<le> i" and il: "i < length xs" by simp_all
    from Suc.prems ji have "\<not> P (xs ! i)" by simp
    moreover have "length (filter P (take i xs)) = length (filter P (take j xs))"
      using Suc.IH ji il Suc.prems(3) by simp
    ultimately show ?thesis using il by (simp add: count_take_Suc)
  qed
qed

subsection \<open>The resolved token\<close>

text \<open>
  C1. In every row of the assembled table the resolved token is the dictionary (IWNLP)
  lemma when that lemma is present (not null), and the lemma of the pipeline otherwise.
  The two masked assignments of lines 162-164 leave no cell of the column missing.
\<close>

theorem resolved_token:
  "token_col (df_from_docs punct docs) =
     map (\<lambda>r. case a_iwnlp r of Some l \<Rightarrow> Some l | None \<Rightarrow> Some (a_lemma r)) docs"
  unfolding token_col_rows by (induction docs) (simp_all split: option.splits)

subsection \<open>Part of speech of the punctuation symbols\<close>

lemma punct_symbol_set:
  "set (map Some punct_symbols) =
     {Some ''['', Some '']'', Some ''<'', Some ''>'', Some ''/'',
      Some [CHR 0xE2, CHR 0x80, CHR 0x93], Some ''%''}"
  by (simp add: punct_symbols_def)

lemma pos_col_rows:
  "pos_col (df_from_docs punct docs) =
     map (\<lambda>(tok, r). if tok \<in> set (map Some punct_symbols) then punct else a_pos r)
       (zip (token_col (df_from_docs punct docs)) docs)"
proof -
  let ?resolved = "\<lambda>r. Some (case a_iwnlp r of Some l \<Rightarrow> l | None \<Rightarrow> a_lemma r)"
  have "pos_col (df_from_docs punct docs) =
     loc_assign_scalar
       (map (\<lambda>v. v \<in> set (map Some punct_symbols)) (token_col (df_from_docs punct docs)))
       (map a_pos docs) punct"
    by (simp add: df_from_docs_def Let_def)
  also have "\<dots> = loc_assign_scalar
       (map (\<lambda>r. ?resolved r \<in> set (map Some punct_symbols)) docs) (map a_pos docs) punct"
    by (simp add: token_col_rows comp_def)
  also have "\<dots> =
       map (\<lambda>r. if ?resolved r \<in> set (map Some punct_symbols) then punct else a_pos r) docs"
    by (rule loc_assign_scalar_map)
  also have "\<dots> =
       map (\<lambda>(tok, r). if tok \<in> set (map Some punct_symbols) then punct else a_pos r)
         (zip (map ?resolved docs) docs)"
    by (induction docs) simp_all
  finally show ?thesis by (simp only: token_col_rows)
qed

text \<open>
  C5. The table has one resolved token per record, and the part-of-speech tag of a row
  is the punctuation category \<open>punct\<close> when the row's resolved token is one of the seven
  symbols \<^verbatim>\<open>[\<close>, \<^verbatim>\<open>]\<close>, \<^verbatim>\<open><\<close>, \<^verbatim>\<open>>\<close>, \<^verbatim>\<open>/\<close>, en dash (the bytes E2 80 93) and \<^verbatim>\<open>%\<close>, whatever
  tag the pipeline gave; every other row keeps the tag of the pipeline.
\<close>

theorem punct_pos:
  "length (token_col (df_from_docs punct docs)) = length docs \<and>
   pos_col (df_from_docs punct docs) =
     map (\<lambda>(tok, r).
            if tok \<in> {Some ''['', Some '']'', Some ''<'', Some ''>'', Some ''/'',
                      Some [CHR 0xE2, CHR 0x80, CHR 0x93], Some ''%''}
            then punct else a_pos r)
       (zip (token_col (df_from_docs punct docs)) docs)"
proof
  show "length (token_col (df_from_docs punct docs)) = length docs"
    by (simp add: token_col_rows)
  show "pos_col (df_from_docs punct docs) =
     map (\<lambda>(tok, r).
            if tok \<in> {Some ''['', Some '']'', Some ''<'', Some ''>'', Some ''/'',
                      Some [CHR 0xE2, CHR 0x80, CHR 0x93], Some ''%''}
            then punct else a_pos r)
       (zip (token_col (df_from_docs punct docs)) docs)"
    using pos_col_rows [of punct docs] by (simp only: punct_symbol_set)
qed

theorem punct_pos_witness:
  "token_col (df_from_docs ''PUNCT'' symbol_rows) =
     [Some ''['', Some [CHR 0xE2, CHR 0x80, CHR 0x93], Some ''%'', Some ''-''] \<and>
   map a_pos symbol_rows = [''X'', ''NOUN'', ''NOUN'', ''SYM''] \<and>
   pos_col (df_from_docs ''PUNCT'' symbol_rows) = [''PUNCT'', ''PUNCT'', ''PUNCT'', ''SYM'']"
proof -
  have tokens: "token_col (df_from_docs ''PUNCT'' symbol_rows) =
     [Some ''['', Some [CHR 0xE2, CHR 0x80, CHR 0x93], Some ''%'', Some ''-'']"
    by (simp add: token_col_rows symbol_rows_def example_record_def)
  have tags: "map a_pos symbol_rows = [''X'', ''NOUN'', ''NOUN'', ''SYM'']"
    by (simp add: symbol_rows_def example_record_def)
  from punct_pos [of "''PUNCT''" symbol_rows]
  have "pos_col (df_from_docs ''PUNCT'' symbol_rows) =
     map (\<lambda>(tok, r).
            if tok \<in> {Some ''['', Some '']'', Some ''<'', Some ''>'', Some ''/'',
                      Some [CHR 0xE2, CHR 0x80, CHR 0x93], Some ''%''}
            then ''PUNCT'' else a_pos r)
       (zip (token_col (df_from_docs ''PUNCT'' symbol_rows)) symbol_rows)"
    by (rule conjunct2)
  also have "\<dots> = [''PUNCT'', ''PUNCT'', ''PUNCT'', ''SYM'']"
    unfolding tokens by (simp add: symbol_rows_def example_record_def)
  finally show ?thesis using tokens tags by simp
qed

subsection \<open>The sentence index\<close>

lemma sent_idx_col_nth:
  "i < length docs \<Longrightarrow>
     sent_idx_col (df_from_docs punct docs) ! i = sum_list (map a_sent_start (take (Suc i) docs))"
  by (simp add: df_from_docs_def Let_def cumsum_def nth_cumsum_from take_map)

lemma length_sent_idx_col: "length (sent_idx_col (df_from_docs punct docs)) = length docs"
  by (simp add: df_from_docs_def Let_def cumsum_def length_cumsum_from)

lemma sent_idx_col_step:
  "i < length docs \<Longrightarrow>
     sent_idx_col (df_from_docs punct docs) ! i =
       (if i = 0 then 0 else sent_idx_col (df_from_docs punct docs) ! (i - 1))
       + a_sent_start (docs ! i)"
proof (cases i)
  case 0
  assume "i < length docs"
  with 0 show ?thesis by (cases docs) (simp_all add: sent_idx_col_nth)
next
  case (Suc j)
  assume il: "i < length docs"
  with Suc have jl: "j < length docs" by simp
  have "sum_list (map a_sent_start (take (Suc i) docs)) =
        sum_list (map a_sent_start (take i docs)) + a_sent_start (docs ! i)"
    using il by (simp add: take_Suc_conv_app_nth)
  with Suc il jl show ?thesis by (simp add: sent_idx_col_nth)
qed

text \<open>
  C2. The sentence-index column has one entry per record. When every sentence-start
  flag is 0 or 1, as \<^verbatim>\<open>process_docs\<close> emits them: the entry of row \<open>i\<close> is the sum of the
  flags of the rows 0 to \<open>i\<close> of the whole batch, the column never decreases, and every
  row has the value of the row before it (0 before the first row), plus one exactly
  when its own flag is set.
\<close>

theorem sentence_index:
  "length (sent_idx_col (df_from_docs punct docs)) = length docs \<and>
   ((\<forall>r\<in>set docs. a_sent_start r = 0 \<or> a_sent_start r = 1) \<longrightarrow>
      (\<forall>i<length docs. sent_idx_col (df_from_docs punct docs) ! i =
          sum_list (map a_sent_start (take (Suc i) docs))) \<and>
      sorted (sent_idx_col (df_from_docs punct docs)) \<and>
      (\<forall>i<length docs. sent_idx_col (df_from_docs punct docs) ! i =
          (if i = 0 then 0 else sent_idx_col (df_from_docs punct docs) ! (i - 1))
          + (if a_sent_start (docs ! i) = 1 then 1 else 0)))"
proof (intro conjI impI)
  show "length (sent_idx_col (df_from_docs punct docs)) = length docs"
    by (rule length_sent_idx_col)
next
  show "\<forall>i<length docs. sent_idx_col (df_from_docs punct docs) ! i =
        sum_list (map a_sent_start (take (Suc i) docs))"
    by (simp add: sent_idx_col_nth)
next
  assume flags: "\<forall>r\<in>set docs. a_sent_start r = 0 \<or> a_sent_start r = 1"
  let ?s = "sent_idx_col (df_from_docs punct docs)"
  have step: "?s ! Suc i = ?s ! i + a_sent_start (docs ! Suc i)" if "Suc i < length docs" for i
    using sent_idx_col_step [OF that, of punct] by simp
  have "?s ! i \<le> ?s ! Suc i" if "Suc i < length ?s" for i
  proof -
    from that have l: "Suc i < length docs" by (simp add: length_sent_idx_col)
    then have "docs ! Suc i \<in> set docs" by simp
    with flags have "0 \<le> a_sent_start (docs ! Suc i)" by auto
    with step [OF l] show ?thesis by simp
  qed
  then show "sorted ?s" by (simp add: sorted_iff_nth_Suc)
next
  assume flags: "\<forall>r\<in>set docs. a_sent_start r = 0 \<or> a_sent_start r = 1"
  let ?s = "sent_idx_col (df_from_docs punct docs)"
  show "\<forall>i<length docs. ?s ! i = (if i = 0 then 0 else ?s ! (i - 1))
          + (if a_sent_start (docs ! i) = 1 then 1 else 0)"
  proof (intro allI impI)
    fix i assume l: "i < length docs"
    then have "docs ! i \<in> set docs" by simp
    with flags have "a_sent_start (docs ! i) = (if a_sent_start (docs ! i) = 1 then 1 else 0)"
      by auto
    with sent_idx_col_step [OF l, of punct] show "?s ! i = (if i = 0 then 0 else ?s ! (i - 1))
          + (if a_sent_start (docs ! i) = 1 then 1 else 0)" by simp
  qed
qed

theorem sentence_index_witness:
  "map a_sent_start example_rows = [1, 0, 0, 1, 0] \<and>
   sent_idx_col (df_from_docs ''PUNCT'' example_rows) = [1, 1, 1, 2, 2] \<and>
   sorted (sent_idx_col (df_from_docs ''PUNCT'' example_rows)) \<and>
   sent_idx_col (df_from_docs ''PUNCT'' example_rows) ! 3 =
     sum_list (map a_sent_start (take 4 example_rows)) \<and>
   sent_idx_col (df_from_docs ''PUNCT'' example_rows) ! 3 =
     sent_idx_col (df_from_docs ''PUNCT'' example_rows) ! 2 + 1"
proof -
  have flags: "\<forall>r\<in>set example_rows. a_sent_start r = 0 \<or> a_sent_start r = 1"
    by (simp add: example_rows_def example_record_def)
  have len: "(3::nat) < length example_rows"
    by (simp add: example_rows_def)
  have third: "a_sent_start (example_rows ! 3) = 1"
    by (simp add: example_rows_def example_record_def)
  from sentence_index [of "''PUNCT''" example_rows] flags
  have sums: "\<forall>i<length example_rows. sent_idx_col (df_from_docs ''PUNCT'' example_rows) ! i =
          sum_list (map a_sent_start (take (Suc i) example_rows))"
    and "sorted (sent_idx_col (df_from_docs ''PUNCT'' example_rows))"
    and step: "\<forall>i<length example_rows. sent_idx_col (df_from_docs ''PUNCT'' example_rows) ! i =
          (if i = 0 then 0 else sent_idx_col (df_from_docs ''PUNCT'' example_rows) ! (i - 1))
          + (if a_sent_start (example_rows ! i) = 1 then 1 else 0)"
    by blast+
  moreover from step len third
  have "sent_idx_col (df_from_docs ''PUNCT'' example_rows) ! 3 =
     sent_idx_col (df_from_docs ''PUNCT'' example_rows) ! 2 + 1"
    by simp
  moreover from sums [rule_format, OF len]
  have "sent_idx_col (df_from_docs ''PUNCT'' example_rows) ! 3 =
     sum_list (map a_sent_start (take 4 example_rows))"
    by simp
  moreover have "map a_sent_start example_rows = [1, 0, 0, 1, 0]"
    by (simp add: example_rows_def example_record_def)
  moreover have "sent_idx_col (df_from_docs ''PUNCT'' example_rows) = [1, 1, 1, 2, 2]"
    by (simp add: df_from_docs_def Let_def cumsum_def example_rows_def example_record_def)
  ultimately show ?thesis by simp
qed

subsection \<open>The entity index\<close>

lemma length_ent_idx_col: "length (ent_idx_col (df_from_docs punct docs)) = length docs"
  by (simp add: df_from_docs_def Let_def cumsum_def length_cumsum_from length_loc_assign_scalar)

lemma ent_idx_col_nth:
  assumes "i < length docs"
  shows "ent_idx_col (df_from_docs punct docs) ! i =
     (if a_ent_iob (docs ! i) = ''O'' then 0
      else int (length (filter (\<lambda>r. a_ent_iob r = ''B'') (take (Suc i) docs))))"
proof -
  let ?flags = "map (\<lambda>r. if a_ent_iob r = ''B'' then 1 else (0::int)) docs"
  have "ent_idx_col (df_from_docs punct docs) =
      loc_assign_scalar (map (\<lambda>r. a_ent_iob r = ''O'') docs) (cumsum ?flags) 0"
    by (simp add: df_from_docs_def Let_def comp_def)
  moreover have "length (cumsum ?flags) = length docs"
    by (simp add: cumsum_def length_cumsum_from)
  moreover have "cumsum ?flags ! i =
      int (length (filter (\<lambda>r. a_ent_iob r = ''B'') (take (Suc i) docs)))"
    using assms
    by (simp add: cumsum_def nth_cumsum_from take_map sum_list_indicator del: take_Suc_Cons)
  ultimately show ?thesis using assms by (simp add: nth_loc_assign_scalar)
qed

text \<open>
  C3, as stated, asks that the entity index be 0 on the Outside rows only, and that it
  stay constant in every row that is not a Begin row. A table whose first token is
  tagged Inside has the index 0 in a row that is not Outside: no Begin tag has been
  counted yet. And in the example table, with the tags B, I, O, B, O, the index falls
  from 1 to 0 in the third row, which is no Begin row: line 173 zeroes the Outside rows.
\<close>

theorem entity_index_counterexample:
  "ent_idx_col (df_from_docs ''PUNCT'' inside_first_rows) ! 0 = 0 \<and>
   a_ent_iob (inside_first_rows ! 0) = ''I'' \<and>
   a_ent_iob (inside_first_rows ! 0) \<noteq> ''O'' \<and>
   map a_ent_iob example_rows = [''B'', ''I'', ''O'', ''B'', ''O''] \<and>
   ent_idx_col (df_from_docs ''PUNCT'' example_rows) ! 1 = 1 \<and>
   ent_idx_col (df_from_docs ''PUNCT'' example_rows) ! 2 = 0"
  by (simp add: df_from_docs_def Let_def cumsum_def inside_first_rows_def example_rows_def
      example_record_def)

text \<open>
  C3, amended. The entity-index column has one entry per record. It is 0 in every
  Outside row, and in every other row it is the number of Begin tags in the rows 0 to
  \<open>i\<close> of the whole batch; so it is 0 exactly in the Outside rows and in the rows that no
  Begin tag precedes or tags. In a Begin row it is larger than in every earlier row.
  From one row that is not Outside to a later one, with no Begin tag between them, it
  grows by one if the later row is a Begin row and stays the same otherwise.
\<close>

theorem entity_index:
  "length (ent_idx_col (df_from_docs punct docs)) = length docs \<and>
   (\<forall>i<length docs. ent_idx_col (df_from_docs punct docs) ! i =
      (if a_ent_iob (docs ! i) = ''O'' then 0
       else int (length (filter (\<lambda>r. a_ent_iob r = ''B'') (take (Suc i) docs))))) \<and>
   (\<forall>i<length docs. (ent_idx_col (df_from_docs punct docs) ! i = 0) =
      (a_ent_iob (docs ! i) = ''O'' \<or> filter (\<lambda>r. a_ent_iob r = ''B'') (take (Suc i) docs) = [])) \<and>
   (\<forall>i<length docs. a_ent_iob (docs ! i) = ''B'' \<longrightarrow>
      (\<forall>j<i. ent_idx_col (df_from_docs punct docs) ! j < ent_idx_col (df_from_docs punct docs) ! i)) \<and>
   (\<forall>i<length docs. \<forall>j<i.
      a_ent_iob (docs ! j) \<noteq> ''O'' \<and> a_ent_iob (docs ! i) \<noteq> ''O'' \<and>
      (\<forall>k. j < k \<and> k < i \<longrightarrow> a_ent_iob (docs ! k) \<noteq> ''B'') \<longrightarrow>
      ent_idx_col (df_from_docs punct docs) ! i =
        ent_idx_col (df_from_docs punct docs) ! j + (if a_ent_iob (docs ! i) = ''B'' then 1 else 0))"
proof (intro conjI allI impI)
  let ?e = "ent_idx_col (df_from_docs punct docs)"
  let ?B = "\<lambda>r. a_ent_iob r = ''B''"
  show "length ?e = length docs" by (rule length_ent_idx_col)
  show "?e ! i = (if a_ent_iob (docs ! i) = ''O'' then 0
       else int (length (filter ?B (take (Suc i) docs))))" if "i < length docs" for i
    using that by (rule ent_idx_col_nth)
  show "(?e ! i = 0) = (a_ent_iob (docs ! i) = ''O'' \<or> filter ?B (take (Suc i) docs) = [])"
    if "i < length docs" for i
    using that by (simp add: ent_idx_col_nth)
  show "?e ! j < ?e ! i" if il: "i < length docs" and b: "a_ent_iob (docs ! i) = ''B''" and ji: "j < i"
    for i j
  proof -
    from il ji have jl: "j < length docs" by simp
    have "length (filter ?B (take (Suc j) docs)) \<le> length (filter ?B (take i docs))"
      using ji by (intro count_take_mono) simp
    also have "\<dots> < length (filter ?B (take (Suc i) docs))"
      using il b by (simp add: count_take_Suc)
    finally have "length (filter ?B (take (Suc j) docs)) < length (filter ?B (take (Suc i) docs))" .
    moreover have "?e ! j \<le> int (length (filter ?B (take (Suc j) docs)))"
      using jl by (simp add: ent_idx_col_nth)
    moreover have "?e ! i = int (length (filter ?B (take (Suc i) docs)))"
      using il b by (simp add: ent_idx_col_nth)
    ultimately show ?thesis by simp
  qed
  show "?e ! i = ?e ! j + (if a_ent_iob (docs ! i) = ''B'' then 1 else 0)"
    if il: "i < length docs" and ji: "j < i"
      and h: "a_ent_iob (docs ! j) \<noteq> ''O'' \<and> a_ent_iob (docs ! i) \<noteq> ''O'' \<and>
        (\<forall>k. j < k \<and> k < i \<longrightarrow> a_ent_iob (docs ! k) \<noteq> ''B'')" for i j
  proof -
    from il ji have jl: "j < length docs" by simp
    have "length (filter ?B (take i docs)) = length (filter ?B (take (Suc j) docs))"
      using ji il h by (intro count_take_between) auto
    then have "length (filter ?B (take (Suc i) docs)) =
        length (filter ?B (take (Suc j) docs)) + (if ?B (docs ! i) then 1 else 0)"
      using il by (simp add: count_take_Suc)
    moreover have "?e ! j = int (length (filter ?B (take (Suc j) docs)))"
      using jl h by (simp add: ent_idx_col_nth)
    moreover have "?e ! i = int (length (filter ?B (take (Suc i) docs)))"
      using il h by (simp add: ent_idx_col_nth)
    ultimately show ?thesis by simp
  qed
qed

theorem entity_index_witness:
  "ent_idx_col (df_from_docs ''PUNCT'' example_rows) = [1, 1, 0, 2, 0] \<and>
   map a_ent_iob example_rows = [''B'', ''I'', ''O'', ''B'', ''O''] \<and>
   ent_idx_col (df_from_docs ''PUNCT'' example_rows) ! 1 <
     ent_idx_col (df_from_docs ''PUNCT'' example_rows) ! 3 \<and>
   ent_idx_col (df_from_docs ''PUNCT'' example_rows) ! 1 =
     ent_idx_col (df_from_docs ''PUNCT'' example_rows) ! 0"
proof -
  have len: "(3::nat) < length example_rows" "(1::nat) < length example_rows"
    by (simp_all add: example_rows_def)
  have tags: "a_ent_iob (example_rows ! 3) = ''B''" "a_ent_iob (example_rows ! 1) \<noteq> ''B''"
      "a_ent_iob (example_rows ! 1) \<noteq> ''O''" "a_ent_iob (example_rows ! 0) \<noteq> ''O''"
    by (simp_all add: example_rows_def example_record_def)
  from entity_index [of "''PUNCT''" example_rows]
  have at_begin: "\<forall>i<length example_rows. a_ent_iob (example_rows ! i) = ''B'' \<longrightarrow>
      (\<forall>j<i. ent_idx_col (df_from_docs ''PUNCT'' example_rows) ! j
            < ent_idx_col (df_from_docs ''PUNCT'' example_rows) ! i)"
    and steady: "\<forall>i<length example_rows. \<forall>j<i.
      a_ent_iob (example_rows ! j) \<noteq> ''O'' \<and> a_ent_iob (example_rows ! i) \<noteq> ''O'' \<and>
      (\<forall>k. j < k \<and> k < i \<longrightarrow> a_ent_iob (example_rows ! k) \<noteq> ''B'') \<longrightarrow>
      ent_idx_col (df_from_docs ''PUNCT'' example_rows) ! i =
        ent_idx_col (df_from_docs ''PUNCT'' example_rows) ! j
          + (if a_ent_iob (example_rows ! i) = ''B'' then 1 else 0)"
    by blast+
  from at_begin len(1) tags(1)
  have "ent_idx_col (df_from_docs ''PUNCT'' example_rows) ! 1 <
     ent_idx_col (df_from_docs ''PUNCT'' example_rows) ! 3"
    by simp
  moreover from steady [rule_format, of 1 0] len(2) tags
  have "ent_idx_col (df_from_docs ''PUNCT'' example_rows) ! 1 =
     ent_idx_col (df_from_docs ''PUNCT'' example_rows) ! 0"
    by simp
  moreover have "ent_idx_col (df_from_docs ''PUNCT'' example_rows) = [1, 1, 0, 2, 0]"
    by (simp add: df_from_docs_def Let_def cumsum_def example_rows_def example_record_def)
  moreover have "map a_ent_iob example_rows = [''B'', ''I'', ''O'', ''B'', ''O'']"
    by (simp add: example_rows_def example_record_def)
  ultimately show ?thesis by simp
qed

section \<open>Properties of the annotation loop\<close>

subsection \<open>The records of a batch\<close>

lemma chunk_tokens_apply:
  "chunk_tokens c m chunk ti = (if ti \<in> chunk_indices chunk then Some c else m ti)"
  by (induction chunk arbitrary: m) (auto simp: chunk_indices_def)

lemma fst_chunk_loop: "fst (chunk_loop c m cs) = c + int (length cs)"
  by (induction cs arbitrary: c m) simp_all

lemma chunk_loop_outside:
  "(\<forall>ch\<in>set cs. ti \<notin> chunk_indices ch) \<Longrightarrow> snd (chunk_loop c m cs) ti = m ti"
  by (induction cs arbitrary: c m) (simp_all add: chunk_tokens_apply)

lemma chunk_loop_last:
  "k < length cs \<Longrightarrow> ti \<in> chunk_indices (cs ! k) \<Longrightarrow>
   (\<forall>k'<length cs. k < k' \<longrightarrow> ti \<notin> chunk_indices (cs ! k')) \<Longrightarrow>
   snd (chunk_loop c m cs) ti = Some (c + int k + 1)"
proof (induction cs arbitrary: c m k)
  case Nil
  then show ?case by simp
next
  case (Cons ch cs)
  show ?case
  proof (cases k)
    case 0
    have "ti \<notin> chunk_indices ch'" if "ch' \<in> set cs" for ch'
    proof -
      from that obtain n where n: "n < length cs" "cs ! n = ch'"
        by (auto simp: in_set_conv_nth)
      with Cons.prems(3) [rule_format, of "Suc n"] 0 show ?thesis by simp
    qed
    then have "\<forall>ch'\<in>set cs. ti \<notin> chunk_indices ch'" by blast
    then have "snd (chunk_loop (c + 1) (chunk_tokens (c + 1) m ch) cs) ti =
        chunk_tokens (c + 1) m ch ti"
      by (rule chunk_loop_outside)
    with Cons.prems(2) 0 show ?thesis by (simp add: chunk_tokens_apply)
  next
    case (Suc k0)
    with Cons.prems have "k0 < length cs" "ti \<in> chunk_indices (cs ! k0)" by simp_all
    moreover from Cons.prems(3) Suc
    have "\<forall>k'<length cs. k0 < k' \<longrightarrow> ti \<notin> chunk_indices (cs ! k')" by auto
    ultimately have "snd (chunk_loop (c + 1) (chunk_tokens (c + 1) m ch) cs) ti =
        Some (c + 1 + int k0 + 1)"
      by (rule Cons.IH)
    with Suc show ?thesis by simp
  qed
qed

lemma process_loop_rows:
  "process_loop nlp c acc kvs = Inr (c', rows) \<Longrightarrow>
   \<exists>ds. map (build_doc nlp) kvs = map Inr ds \<and>
        rows = acc @ concat (map (\<lambda>j.
            map (token_attr (fst (kvs ! j))
                   (snd (chunk_loop (c + chunks_before ds j) Map.empty (noun_chunks (ds ! j)))))
                (doc_tokens (ds ! j))) [0..<length ds])"
proof (induction kvs arbitrary: c acc)
  case Nil
  then show ?case by simp
next
  case (Cons kv kvs)
  from Cons.prems obtain d where d: "build_doc nlp kv = Inr d"
    by (auto split: sum.splits)
  let ?c1 = "c + int (length (noun_chunks d))"
  let ?np = "snd (chunk_loop c Map.empty (noun_chunks d))"
  let ?attr = "map (token_attr (fst kv) ?np) (doc_tokens d)"
  from Cons.prems d have "process_loop nlp ?c1 (acc @ ?attr) kvs = Inr (c', rows)"
    by (simp add: case_prod_beta fst_chunk_loop)
  from Cons.IH [OF this] obtain ds where
    ds: "map (build_doc nlp) kvs = map Inr ds" and
    rows: "rows = (acc @ ?attr) @ concat (map (\<lambda>j.
            map (token_attr (fst (kvs ! j))
                   (snd (chunk_loop (?c1 + chunks_before ds j) Map.empty (noun_chunks (ds ! j)))))
                (doc_tokens (ds ! j))) [0..<length ds])"
    by blast
  let ?f = "\<lambda>j. map (token_attr (fst ((kv # kvs) ! j))
                   (snd (chunk_loop (c + chunks_before (d # ds) j) Map.empty
                      (noun_chunks ((d # ds) ! j)))))
                (doc_tokens ((d # ds) ! j))"
  have "map ?f [0..<length (d # ds)] = ?f 0 # map (\<lambda>j. ?f (Suc j)) [0..<length ds]"
    by (simp add: upt_conv_Cons map_Suc_upt [symmetric] del: upt_Suc)
  moreover have "?f 0 = ?attr" by (simp add: chunks_before_def)
  moreover have "(\<lambda>j. ?f (Suc j)) = (\<lambda>j. map (token_attr (fst (kvs ! j))
                   (snd (chunk_loop (?c1 + chunks_before ds j) Map.empty (noun_chunks (ds ! j)))))
                (doc_tokens (ds ! j)))"
    by (rule ext) (simp add: chunks_before_def add.assoc)
  ultimately have "acc @ concat (map ?f [0..<length (d # ds)]) = rows"
    using rows by simp
  moreover have "map (build_doc nlp) (kv # kvs) = map Inr (d # ds)"
    using d ds by simp
  ultimately show ?case by blast
qed


lemma map_nth_upt: "map (\<lambda>j. f (xs ! j)) [0..<length xs] = map f xs"
proof -
  have "map (\<lambda>j. f (xs ! j)) [0..<length xs] = map f (map (\<lambda>j. xs ! j) [0..<length xs])"
    by (simp add: comp_def)
  then show ?thesis by (simp only: map_nth)
qed

lemma nth_concat_offset:
  "j < length xss \<Longrightarrow> p < length (xss ! j) \<Longrightarrow>
     concat xss ! (sum_list (map length (take j xss)) + p) = xss ! j ! p"
proof (induction xss arbitrary: j)
  case Nil
  then show ?case by simp
next
  case (Cons xs xss)
  show ?case
  proof (cases j)
    case 0
    with Cons.prems show ?thesis by (simp add: nth_append)
  next
    case (Suc j0)
    with Cons.prems have "j0 < length xss" "p < length (xss ! j0)" by simp_all
    from Cons.IH [OF this] Suc show ?thesis by (simp add: nth_append add.assoc)
  qed
qed

subsection \<open>The sentence-start flag\<close>

text \<open>
  C6. When the loop of \<^verbatim>\<open>process_docs\<close> ends without an exception, every row of the source
  table has given a document \<open>d\<close>, and the records are those of the tokens of these
  documents, in order: each record carries the index of its token and the flag 1 if the
  pipeline marked the token as a sentence start or the token has index 0, and the flag
  0 otherwise.
\<close>

theorem sent_start_flag:
  assumes "process_loop nlp 0 [] kvs = Inr (c', rows)"
  shows "\<exists>ds. map (build_doc nlp) kvs = map Inr ds \<and>
     map (\<lambda>r. (a_tok_idx r, a_sent_start r)) rows =
       concat (map (\<lambda>d. map (\<lambda>t. (tok_i t,
           if tok_is_sent_start t = Some True \<or> tok_i t = 0 then 1 else 0)) (doc_tokens d)) ds)"
proof -
  let ?g = "\<lambda>r. (a_tok_idx r, a_sent_start r)"
  let ?h = "\<lambda>d. map (\<lambda>t. (tok_i t,
           if tok_is_sent_start t = Some True \<or> tok_i t = 0 then 1 else (0::int))) (doc_tokens d)"
  from process_loop_rows [OF assms] obtain ds where
    ds: "map (build_doc nlp) kvs = map Inr ds" and
    rows: "rows = concat (map (\<lambda>j.
            map (token_attr (fst (kvs ! j))
                   (snd (chunk_loop (0 + chunks_before ds j) Map.empty (noun_chunks (ds ! j)))))
                (doc_tokens (ds ! j))) [0..<length ds])"
    by auto
  have "map ?g rows = concat (map (\<lambda>j. ?h (ds ! j)) [0..<length ds])"
    unfolding rows by (simp add: map_concat comp_def token_attr_def)
  also have "\<dots> = concat (map ?h ds)"
    using map_nth_upt [of ?h ds] by simp
  finally show ?thesis using ds by blast
qed

theorem sent_start_flag_witness:
  "process_loop example_nlp 0 [] (tuples example_text_df) =
     Inr (2, map (token_attr (PyInt 101) [0 \<mapsto> 1, 1 \<mapsto> 1]) (doc_tokens cat_dog_doc) @
             map (token_attr (PyInt 102) [0 \<mapsto> 2]) (doc_tokens run_doc)) \<and>
   map (build_doc example_nlp) (tuples example_text_df) = map Inr [cat_dog_doc, run_doc] \<and>
   map (\<lambda>r. (a_tok_idx r, a_sent_start r))
     (map (token_attr (PyInt 101) [0 \<mapsto> 1, 1 \<mapsto> 1]) (doc_tokens cat_dog_doc) @
      map (token_attr (PyInt 102) [0 \<mapsto> 2]) (doc_tokens run_doc)) =
     [(0, 1), (1, 0), (0, 1), (1, 0)]"
proof -
  have docs: "map (build_doc example_nlp) (tuples example_text_df) = map Inr [cat_dog_doc, run_doc]"
    by (simp add: build_doc_def example_nlp_def example_text_df_def)
  have run: "process_loop example_nlp 0 [] (tuples example_text_df) =
     Inr (2, map (token_attr (PyInt 101) [0 \<mapsto> 1, 1 \<mapsto> 1]) (doc_tokens cat_dog_doc) @
             map (token_attr (PyInt 102) [0 \<mapsto> 2]) (doc_tokens run_doc))"
    by (simp add: build_doc_def example_nlp_def example_text_df_def cat_dog_doc_def run_doc_def
        example_token_def)
  from sent_start_flag [OF run] docs
  have "map (\<lambda>r. (a_tok_idx r, a_sent_start r))
     (map (token_attr (PyInt 101) [0 \<mapsto> 1, 1 \<mapsto> 1]) (doc_tokens cat_dog_doc) @
      map (token_attr (PyInt 102) [0 \<mapsto> 2]) (doc_tokens run_doc)) =
     concat (map (\<lambda>d. map (\<lambda>t. (tok_i t,
           if tok_is_sent_start t = Some True \<or> tok_i t = 0 then 1 else 0)) (doc_tokens d))
        [cat_dog_doc, run_doc])"
    by auto
  also have "\<dots> = [(0, 1), (1, 0), (0, 1), (1, 0)]"
    by (simp add: cat_dog_doc_def run_doc_def example_token_def)
  finally show ?thesis using run docs by simp
qed



subsection \<open>The noun-phrase group id\<close>

lemma sum_list_int_nonneg: "0 \<le> (\<Sum>d\<leftarrow>xs. int (f d))"
  by (induction xs) simp_all

lemma chunks_before_nonneg: "0 \<le> chunks_before ds j"
  by (simp add: chunks_before_def sum_list_int_nonneg)

lemma chunks_before_Suc:
  "j < length ds \<Longrightarrow>
     chunks_before ds (Suc j) = chunks_before ds j + int (length (noun_chunks (ds ! j)))"
  by (simp add: chunks_before_def take_Suc_conv_app_nth)

lemma chunks_before_mono: "j \<le> j' \<Longrightarrow> chunks_before ds j \<le> chunks_before ds j'"
proof -
  assume "j \<le> j'"
  then have "take j' ds = take j ds @ take (j' - j) (drop j ds)"
    using take_add [of j "j' - j" ds] by simp
  then have "chunks_before ds j' =
      chunks_before ds j + (\<Sum>d\<leftarrow>take (j' - j) (drop j ds). int (length (noun_chunks d)))"
    by (simp add: chunks_before_def)
  moreover have "0 \<le> (\<Sum>d\<leftarrow>take (j' - j) (drop j ds). int (length (noun_chunks d)))"
    by (rule sum_list_int_nonneg)
  ultimately show ?thesis by simp
qed

lemma chunk_number_order:
  assumes "j < length ds" "k < length (noun_chunks (ds ! j))"
    and "j < j' \<or> (j = j' \<and> k < k')"
  shows "0 < chunk_number ds j k \<and> chunk_number ds j k < chunk_number ds j' k'"
proof -
  have pos: "0 < chunk_number ds j k"
    using chunks_before_nonneg [of ds j] by (simp add: chunk_number_def)
  from assms(3) have "chunk_number ds j k < chunk_number ds j' k'"
  proof
    assume "j < j'"
    then have "chunks_before ds (Suc j) \<le> chunks_before ds j'"
      by (intro chunks_before_mono) simp
    with assms(1,2) show ?thesis
      by (simp add: chunk_number_def chunks_before_Suc)
  next
    assume "j = j' \<and> k < k'"
    then show ?thesis by (simp add: chunk_number_def)
  qed
  with pos show ?thesis by simp
qed

lemma map_take_upt:
  "j \<le> length xs \<Longrightarrow> map f (take j xs) = map (\<lambda>i. f (xs ! i)) [0..<j]"
proof -
  assume j: "j \<le> length xs"
  have "map f (take j xs) = map (\<lambda>i. f (take j xs ! i)) [0..<length (take j xs)]"
    by (rule map_nth_upt [symmetric])
  also have "\<dots> = map (\<lambda>i. f (xs ! i)) [0..<j]"
    using j by (intro map_cong) (simp_all add: min_def)
  finally show ?thesis .
qed

lemma noun_phrase_rows:
  assumes "process_loop nlp 0 [] kvs = Inr (c', rows)"
  shows "\<exists>ds. map (build_doc nlp) kvs = map Inr ds \<and>
     length rows = row_offset ds (length ds) \<and>
     (\<forall>j<length ds. \<forall>p<length (doc_tokens (ds ! j)).
        a_noun_phrase (rows ! (row_offset ds j + p)) =
          (case snd (chunk_loop (chunks_before ds j) Map.empty (noun_chunks (ds ! j)))
                  (tok_i (doc_tokens (ds ! j) ! p)) of Some n \<Rightarrow> n | None \<Rightarrow> 0))"
proof -
  from process_loop_rows [OF assms] obtain ds where
    ds: "map (build_doc nlp) kvs = map Inr ds" and
    rows: "rows = concat (map (\<lambda>j.
            map (token_attr (fst (kvs ! j))
                   (snd (chunk_loop (0 + chunks_before ds j) Map.empty (noun_chunks (ds ! j)))))
                (doc_tokens (ds ! j))) [0..<length ds])"
    by auto
  let ?F = "\<lambda>j. map (token_attr (fst (kvs ! j))
                   (snd (chunk_loop (0 + chunks_before ds j) Map.empty (noun_chunks (ds ! j)))))
                (doc_tokens (ds ! j))"
  let ?xss = "map ?F [0..<length ds]"
  have off: "sum_list (map length (take j ?xss)) = row_offset ds j" if "j \<le> length ds" for j
  proof -
    have "take j ?xss = map ?F [0..<j]"
      using that by (simp add: take_map)
    then have "map length (take j ?xss) = map (\<lambda>i. length (doc_tokens (ds ! i))) [0..<j]"
      by (simp add: comp_def)
    also have "\<dots> = map (\<lambda>d. length (doc_tokens d)) (take j ds)"
      using that by (rule map_take_upt [symmetric])
    finally show ?thesis by (simp add: row_offset_def)
  qed
  have len: "length rows = row_offset ds (length ds)"
    using off [of "length ds"] by (simp add: rows length_concat)
  have nth: "a_noun_phrase (rows ! (row_offset ds j + p)) =
          (case snd (chunk_loop (chunks_before ds j) Map.empty (noun_chunks (ds ! j)))
                  (tok_i (doc_tokens (ds ! j) ! p)) of Some n \<Rightarrow> n | None \<Rightarrow> 0)"
    if j: "j < length ds" and p: "p < length (doc_tokens (ds ! j))" for j p
  proof -
    from j p have "concat ?xss ! (sum_list (map length (take j ?xss)) + p) = ?xss ! j ! p"
      by (intro nth_concat_offset) simp_all
    with off [of j] j have "rows ! (row_offset ds j + p) = ?F j ! p"
      by (simp add: rows)
    with p show ?thesis by (simp add: token_attr_def)
  qed
  from ds len nth show ?thesis by blast
qed

text \<open>
  C4, as stated, asks that all tokens of one chunk share one id. With a pipeline whose
  second chunk overlaps the first (the chunks cover the tokens 0, 1 and then the token 1
  again), the two tokens of the first chunk get the ids 1 and 2: the later chunk
  overwrites the entry of the token in the dictionary \<^verbatim>\<open>noun_phrases\<close>.
\<close>

theorem noun_phrase_ids_counterexample:
  "map_sum id noun_phrase_col (process_docs ''PUNCT'' overlap_nlp cat_dog_text_df) = Inr [1, 2] \<and>
   map tok_i (doc_tokens (overlap_nlp ''Cat Dog'')) = [0, 1] \<and>
   map chunk_indices (noun_chunks (overlap_nlp ''Cat Dog'')) = [{0, 1}, {1}]"
  by (simp add: process_docs_def build_doc_def overlap_nlp_def cat_dog_text_df_def
      cat_dog_doc_def example_token_def token_attr_def df_from_docs_def Let_def
      chunk_indices_def)

text \<open>
  C4, amended. When \<^verbatim>\<open>process_docs\<close> returns a table, every row of the source table has given
  a document, and the table has one row per token of these documents, document after
  document. The noun-phrase id of a token that no chunk of its document covers is 0. The
  id of a token that a chunk covers is the number of the last chunk of its document that
  covers it; so all tokens of a chunk share the chunk's number unless a later chunk of
  the same document overlaps it. The chunk numbers come from one counter over the whole
  batch: they are positive, and a chunk emitted earlier, in the same or in an earlier
  document, has the smaller number.
\<close>

theorem noun_phrase_ids:
  assumes "process_docs punct nlp text_df = Inr t"
  shows "\<exists>ds. map (build_doc nlp) (tuples text_df) = map Inr ds \<and>
     length (noun_phrase_col t) = row_offset ds (length ds) \<and>
     (\<forall>j<length ds. \<forall>p<length (doc_tokens (ds ! j)).
        ((\<forall>ch\<in>set (noun_chunks (ds ! j)). tok_i (doc_tokens (ds ! j) ! p) \<notin> chunk_indices ch) \<longrightarrow>
            noun_phrase_col t ! (row_offset ds j + p) = 0) \<and>
        (\<forall>k<length (noun_chunks (ds ! j)).
            tok_i (doc_tokens (ds ! j) ! p) \<in> chunk_indices (noun_chunks (ds ! j) ! k) \<and>
            (\<forall>k'<length (noun_chunks (ds ! j)).
                k < k' \<longrightarrow> tok_i (doc_tokens (ds ! j) ! p) \<notin> chunk_indices (noun_chunks (ds ! j) ! k')) \<longrightarrow>
            noun_phrase_col t ! (row_offset ds j + p) = chunk_number ds j k)) \<and>
     (\<forall>j<length ds. \<forall>k<length (noun_chunks (ds ! j)).
      \<forall>j'<length ds. \<forall>k'<length (noun_chunks (ds ! j')).
        (j < j' \<or> (j = j' \<and> k < k')) \<longrightarrow>
          0 < chunk_number ds j k \<and> chunk_number ds j k < chunk_number ds j' k')"
proof -
  from assms obtain c' rows where
    loop: "process_loop nlp 0 [] (tuples text_df) = Inr (c', rows)" and
    t: "t = df_from_docs punct rows"
    by (auto simp: process_docs_def split: sum.splits)
  from noun_phrase_rows [OF loop] obtain ds where
    ds: "map (build_doc nlp) (tuples text_df) = map Inr ds" and
    len: "length rows = row_offset ds (length ds)" and
    nth: "\<And>j p. j < length ds \<Longrightarrow> p < length (doc_tokens (ds ! j)) \<Longrightarrow>
        a_noun_phrase (rows ! (row_offset ds j + p)) =
          (case snd (chunk_loop (chunks_before ds j) Map.empty (noun_chunks (ds ! j)))
                  (tok_i (doc_tokens (ds ! j) ! p)) of Some n \<Rightarrow> n | None \<Rightarrow> 0)"
    by blast
  have col: "noun_phrase_col t = map a_noun_phrase rows"
    by (simp add: t df_from_docs_def Let_def)
  have inb: "row_offset ds j + p < length rows"
    if j: "j < length ds" and p: "p < length (doc_tokens (ds ! j))" for j p
  proof -
    have "row_offset ds (Suc j) = row_offset ds j + length (doc_tokens (ds ! j))"
      using j by (simp add: row_offset_def take_Suc_conv_app_nth)
    moreover have "row_offset ds (Suc j) \<le> row_offset ds (length ds)"
    proof -
      from j have "take (length ds) ds = take (Suc j) ds @ take (length ds - Suc j) (drop (Suc j) ds)"
        using take_add [of "Suc j" "length ds - Suc j" ds] by simp
      then have "row_offset ds (length ds) = row_offset ds (Suc j) +
          (\<Sum>d\<leftarrow>take (length ds - Suc j) (drop (Suc j) ds). length (doc_tokens d))"
        unfolding row_offset_def by (metis map_append sum_list_append)
      then show ?thesis by simp
    qed
    ultimately show ?thesis using p len by simp
  qed
  have val: "noun_phrase_col t ! (row_offset ds j + p) =
          (case snd (chunk_loop (chunks_before ds j) Map.empty (noun_chunks (ds ! j)))
                  (tok_i (doc_tokens (ds ! j) ! p)) of Some n \<Rightarrow> n | None \<Rightarrow> 0)"
    if "j < length ds" and "p < length (doc_tokens (ds ! j))" for j p
    using that inb [OF that] nth [OF that] by (simp add: col)
  have outside: "noun_phrase_col t ! (row_offset ds j + p) = 0"
    if "j < length ds" and "p < length (doc_tokens (ds ! j))"
      and "\<forall>ch\<in>set (noun_chunks (ds ! j)). tok_i (doc_tokens (ds ! j) ! p) \<notin> chunk_indices ch"
    for j p
    using val [OF that(1,2)] chunk_loop_outside [OF that(3), of "chunks_before ds j" Map.empty]
    by simp
  have inside: "noun_phrase_col t ! (row_offset ds j + p) = chunk_number ds j k"
    if "j < length ds" and "p < length (doc_tokens (ds ! j))"
      and "k < length (noun_chunks (ds ! j))"
      and "tok_i (doc_tokens (ds ! j) ! p) \<in> chunk_indices (noun_chunks (ds ! j) ! k)"
      and "\<forall>k'<length (noun_chunks (ds ! j)).
                k < k' \<longrightarrow> tok_i (doc_tokens (ds ! j) ! p) \<notin> chunk_indices (noun_chunks (ds ! j) ! k')"
    for j p k
    using val [OF that(1,2)]
      chunk_loop_last [OF that(3,4,5), of "chunks_before ds j" Map.empty]
    by (simp add: chunk_number_def)
  have order: "0 < chunk_number ds j k \<and> chunk_number ds j k < chunk_number ds j' k'"
    if "j < length ds" and "k < length (noun_chunks (ds ! j))"
      and "j < j' \<or> (j = j' \<and> k < k')" for j k j' k'
    using that by (rule chunk_number_order)
  have "length (noun_phrase_col t) = row_offset ds (length ds)"
    using len col by simp
  with ds outside inside order show ?thesis
    by (intro exI [of _ ds] conjI allI impI) blast+
qed


theorem noun_phrase_ids_witness:
  "\<exists>t. process_docs ''PUNCT'' example_nlp example_text_df = Inr t \<and>
       noun_phrase_col t = [1, 1, 2, 0] \<and>
       noun_phrase_col t ! (row_offset [cat_dog_doc, run_doc] 1 + 0) =
         chunk_number [cat_dog_doc, run_doc] 1 0 \<and>
       noun_phrase_col t ! (row_offset [cat_dog_doc, run_doc] 1 + 1) = 0 \<and>
       chunk_number [cat_dog_doc, run_doc] 0 0 < chunk_number [cat_dog_doc, run_doc] 1 0"
proof -
  let ?rows = "map (token_attr (PyInt 101) [0 \<mapsto> 1, 1 \<mapsto> 1]) (doc_tokens cat_dog_doc) @
               map (token_attr (PyInt 102) [0 \<mapsto> 2]) (doc_tokens run_doc)"
  let ?t = "df_from_docs ''PUNCT'' ?rows"
  let ?ds = "[cat_dog_doc, run_doc]"
  have docs: "map (build_doc example_nlp) (tuples example_text_df) = map Inr ?ds"
    by (simp add: build_doc_def example_nlp_def example_text_df_def)
  have loop: "process_loop example_nlp 0 [] (tuples example_text_df) = Inr (2, ?rows)"
    by (simp add: build_doc_def example_nlp_def example_text_df_def cat_dog_doc_def run_doc_def
        example_token_def)
  then have run: "process_docs ''PUNCT'' example_nlp example_text_df = Inr ?t"
    by (simp add: process_docs_def)
  from noun_phrase_ids [OF run] obtain ds where
    ds: "map (build_doc example_nlp) (tuples example_text_df) = map Inr ds" and
    rows: "\<forall>j<length ds. \<forall>p<length (doc_tokens (ds ! j)).
        ((\<forall>ch\<in>set (noun_chunks (ds ! j)). tok_i (doc_tokens (ds ! j) ! p) \<notin> chunk_indices ch) \<longrightarrow>
            noun_phrase_col ?t ! (row_offset ds j + p) = 0) \<and>
        (\<forall>k<length (noun_chunks (ds ! j)).
            tok_i (doc_tokens (ds ! j) ! p) \<in> chunk_indices (noun_chunks (ds ! j) ! k) \<and>
            (\<forall>k'<length (noun_chunks (ds ! j)).
                k < k' \<longrightarrow> tok_i (doc_tokens (ds ! j) ! p) \<notin> chunk_indices (noun_chunks (ds ! j) ! k')) \<longrightarrow>
            noun_phrase_col ?t ! (row_offset ds j + p) = chunk_number ds j k)" and
    order: "\<forall>j<length ds. \<forall>k<length (noun_chunks (ds ! j)).
      \<forall>j'<length ds. \<forall>k'<length (noun_chunks (ds ! j')).
        (j < j' \<or> (j = j' \<and> k < k')) \<longrightarrow>
          0 < chunk_number ds j k \<and> chunk_number ds j k < chunk_number ds j' k'"
    by blast
  from ds docs have "map Inr ds = (map Inr ?ds :: (error + doc) list)" by simp
  then have eq: "ds = ?ds" by (auto simp: map_eq_Cons_conv)
  have inside: "noun_phrase_col ?t ! (row_offset ?ds 1 + 0) = chunk_number ?ds 1 0"
    using rows [unfolded eq, rule_format, of 1 0, THEN conjunct2, rule_format, of 0]
    by (simp add: run_doc_def example_token_def chunk_indices_def)
  have outside: "noun_phrase_col ?t ! (row_offset ?ds 1 + 1) = 0"
    using rows [unfolded eq, rule_format, of 1 1, THEN conjunct1]
    by (simp add: run_doc_def example_token_def chunk_indices_def)
  have before: "chunk_number ?ds 0 0 < chunk_number ?ds 1 0"
    using order [unfolded eq, rule_format, of 0 0 1 0]
    by (simp add: run_doc_def cat_dog_doc_def)
  have col: "noun_phrase_col ?t = [1, 1, 2, 0]"
    by (simp add: df_from_docs_def Let_def token_attr_def cat_dog_doc_def run_doc_def
        example_token_def)
  from run col inside outside before show ?thesis by blast
qed

section \<open>Properties of loading, storing and the run\<close>

subsection \<open>Slices and the selection of the text columns\<close>








subsection \<open>The document loader\<close>





subsection \<open>The path of the output\<close>

lemma suffix_not_absolute:
  "\<not> starts_with ''/'' corpus_name \<Longrightarrow> \<not> starts_with ''/'' (corpus_name @ ''_'' @ rest)"
  by (cases corpus_name) simp_all

lemma join_plain:
  "a \<noteq> [] \<Longrightarrow> last a \<noteq> CHR ''/'' \<Longrightarrow> \<not> starts_with ''/'' b \<Longrightarrow> join a b = a @ ''/'' @ b"
  by (simp add: join_def)

lemma files_make_each: "files (snd (make_each w ps)) = files w"
  by (induction ps arbitrary: w) simp_all

lemma files_makedirs: "files (snd (makedirs w d)) = files w"
  by (simp add: makedirs_def files_make_each)

lemma to_pickle_done:
  "fst (to_pickle w filename df) = None \<Longrightarrow> files (snd (to_pickle w filename df)) filename = Some df"
  by (simp add: to_pickle_def split: if_splits)

lemma store_done:
  "fst (store c w corpus df suffix) = None \<Longrightarrow>
     files (snd (store c w corpus df suffix)) (join (NLP_DIR c) (corpus @ suffix @ ''.pickle''))
       = Some df"
  by (cases "makedirs w (NLP_DIR c)")
     (auto simp: store_def to_pickle_done split: option.splits)

lemma files_vocab_to_disk_step: "files (snd (vocab_to_disk_step c w)) = files w"
  using files_makedirs [of w "VOC_DIR c"]
  by (cases "makedirs w (VOC_DIR c)") (auto simp: vocab_to_disk_step_def split: option.splits)

lemma run_stores:
  assumes "read c w file_path start stop = Inr text_df"
    and "process_docs (PUNCT c) nlp text_df = Inr df"
    and "slicing start stop = Inr slicing_text"
    and "nlp_suffix start stop = Inr suffix"
  shows "read_process_store c nlp w file_path corpus_name True vocab start stop =
       (case store c w corpus_name (frame_of df) suffix of
          (Some e, w1) \<Rightarrow> (Some e, w1)
        | (None, w1) \<Rightarrow> (if vocab then vocab_to_disk_step c w1 else (None, w1)))"
  using assms by (simp add: read_process_store_def)

lemma example_read:
  "read example_constants example_world ''etl/corpus.pickle'' 5 (Some 10) =
     Inr \<lparr> columns = [TITLE, DESCRIPTION, TEXT],
           tuples = map (\<lambda>n. (PyInt n, [PyStr ''Cat Dog'', PyNone, PyNone])) [5, 6, 7, 8, 9] \<rparr>"
  by code_simp

lemma example_process:
  "\<exists>df. process_docs ''PUNCT'' example_nlp
      \<lparr> columns = [TITLE, DESCRIPTION, TEXT],
        tuples = map (\<lambda>n. (PyInt n, [PyStr ''Cat Dog'', PyNone, PyNone])) [5, 6, 7, 8, 9] \<rparr> = Inr df"
  by (simp add: process_docs_def build_doc_def example_nlp_def case_prod_beta)

lemma example_makedirs:
  "makedirs example_world ''nlp'' =
     (None, example_world \<lparr> dirs := insert ''nlp'' (dirs example_world) \<rparr>)"
  by (simp add: makedirs_def rstrip_slash_def dir_exists_def example_world_def)

lemma example_dirname: "dirname ''nlp/corpus_5_9_nlp.pickle'' = ''nlp''"
  by (simp add: dirname_def rstrip_slash_def)

lemma example_store:
  "fst (store example_constants example_world ''corpus'' df ''_5_9_nlp'') = None"
proof -
  have "store example_constants example_world ''corpus'' df ''_5_9_nlp'' =
      to_pickle (example_world \<lparr> dirs := insert ''nlp'' (dirs example_world) \<rparr>)
        ''nlp/corpus_5_9_nlp.pickle'' df"
    by (simp add: store_def example_makedirs join_def example_constants_def)
  moreover have "fst (to_pickle (example_world \<lparr> dirs := insert ''nlp'' (dirs example_world) \<rparr>)
        ''nlp/corpus_5_9_nlp.pickle'' df) = None"
    by (simp add: to_pickle_def example_dirname dir_exists_def example_world_def)
  ultimately show ?thesis by simp
qed

text \<open>
  C8, as stated, asks that every run with storing enabled write the table, with the
  suffix \<^verbatim>\<open>_nlp\<close> only when \<^verbatim>\<open>start=0\<close> and no \<^verbatim>\<open>stop\<close> is given. A run with \<^verbatim>\<open>start=0\<close> and
  \<^verbatim>\<open>stop=0\<close> is a sliced run, of no document; the test \<^verbatim>\<open>start or stop\<close> of line 65 is
  false for it and its empty table goes to the file with the suffix \<^verbatim>\<open>_nlp\<close>, not
  \<^verbatim>\<open>_0_-1_nlp\<close>. A run with \<^verbatim>\<open>start=3\<close> and no \<^verbatim>\<open>stop\<close> writes nothing: it ends with a
  TypeError and leaves the file system as it was.
\<close>

theorem output_path_counterexample:
  "fst (read_process_store example_constants example_nlp example_world
          ''etl/corpus.pickle'' ''corpus'' True False 0 (Some 0)) = None \<and>
   files (snd (read_process_store example_constants example_nlp example_world
          ''etl/corpus.pickle'' ''corpus'' True False 0 (Some 0))) ''nlp/corpus_nlp.pickle'' =
     Some \<lparr> columns = FIELDS, tuples = [] \<rparr> \<and>
   files (snd (read_process_store example_constants example_nlp example_world
          ''etl/corpus.pickle'' ''corpus'' True False 0 (Some 0))) ''nlp/corpus_0_-1_nlp.pickle'' =
     None \<and>
   fst (read_process_store example_constants example_nlp example_world
          ''etl/corpus.pickle'' ''corpus'' True False 3 None) = Some FormatTypeError \<and>
   snd (read_process_store example_constants example_nlp example_world
          ''etl/corpus.pickle'' ''corpus'' True False 3 None) = example_world"
proof -
  have "fst (read_process_store example_constants example_nlp example_world
          ''etl/corpus.pickle'' ''corpus'' True False 0 (Some 0)) = None \<and>
   files (snd (read_process_store example_constants example_nlp example_world
          ''etl/corpus.pickle'' ''corpus'' True False 0 (Some 0))) ''nlp/corpus_nlp.pickle'' =
     Some \<lparr> columns = FIELDS, tuples = [] \<rparr> \<and>
   files (snd (read_process_store example_constants example_nlp example_world
          ''etl/corpus.pickle'' ''corpus'' True False 0 (Some 0))) ''nlp/corpus_0_-1_nlp.pickle'' =
     None"
    by code_simp
  moreover have "read_process_store example_constants example_nlp example_world
          ''etl/corpus.pickle'' ''corpus'' True False 3 None = (Some FormatTypeError, example_world)"
    by (simp add: read_process_store_def slicing_def start_or_stop_def)
  ultimately show ?thesis by simp
qed

text \<open>
  C8, amended. Take a run with storing enabled whose \<^verbatim>\<open>read\<close> and \<^verbatim>\<open>process_docs\<close>
  succeed and that has a \<^verbatim>\<open>stop\<close> or \<^verbatim>\<open>start=0\<close>. Its suffix is \<^verbatim>\<open>_nlp\<close> when \<^verbatim>\<open>start\<close> is 0 and
  \<^verbatim>\<open>stop\<close> is unset or 0, and \<^verbatim>\<open>_<start>_<stop-1>_nlp\<close> when \<^verbatim>\<open>stop\<close> is given and \<^verbatim>\<open>start\<close> or
  \<^verbatim>\<open>stop\<close> is not 0. Its path \<^verbatim>\<open>join(NLP_DIR, corpus_name + suffix + '.pickle')\<close> is the output
  directory, a slash, and that file name, when the directory is not empty and does not
  end with a slash and the corpus name does not begin with one. When \<^verbatim>\<open>store\<close> does not
  raise (the output directory can be made and the file can be written), the file at
  that path holds the token table after the run, and a run that does not write the
  vocabulary ends without an exception.
\<close>

theorem output_path:
  assumes "read c w file_path start stop = Inr text_df"
    and "process_docs (PUNCT c) nlp text_df = Inr df"
    and "stop = None \<longrightarrow> start = 0"
  shows "\<exists>suffix.
     nlp_suffix start stop = Inr suffix \<and>
     (start = 0 \<and> (stop = None \<or> stop = Some 0) \<longrightarrow> suffix = ''_nlp'') \<and>
     (\<forall>s. stop = Some s \<and> (start \<noteq> 0 \<or> s \<noteq> 0) \<longrightarrow>
        suffix = ''_'' @ format_d start @ ''_'' @ format_d (s - 1) @ ''_nlp'') \<and>
     (NLP_DIR c \<noteq> [] \<and> last (NLP_DIR c) \<noteq> CHR ''/'' \<and> \<not> starts_with ''/'' corpus_name \<longrightarrow>
        join (NLP_DIR c) (corpus_name @ suffix @ ''.pickle'') =
          NLP_DIR c @ ''/'' @ corpus_name @ suffix @ ''.pickle'') \<and>
     (fst (store c w corpus_name (frame_of df) suffix) = None \<longrightarrow>
        read_process_store c nlp w file_path corpus_name True False start stop =
          (None, snd (store c w corpus_name (frame_of df) suffix)) \<and>
        files (snd (read_process_store c nlp w file_path corpus_name True vocab start stop))
          (join (NLP_DIR c) (corpus_name @ suffix @ ''.pickle'')) = Some (frame_of df))"
proof -
  define suffix where "suffix =
    (if start_or_stop start stop
     then ''_'' @ format_d start @ ''_'' @ format_d (the stop - 1) @ ''_nlp'' else ''_nlp'')"
  let ?path = "join (NLP_DIR c) (corpus_name @ suffix @ ''.pickle'')"
  let ?stored = "store c w corpus_name (frame_of df) suffix"
  have suf: "nlp_suffix start stop = Inr suffix"
    using assms(3) by (cases stop) (auto simp: nlp_suffix_def suffix_def start_or_stop_def)
  have "\<exists>slicing_text. slicing start stop = Inr slicing_text"
    using assms(3) by (cases stop) (auto simp: slicing_def start_or_stop_def)
  then obtain slicing_text where sl: "slicing start stop = Inr slicing_text" ..
  have run: "read_process_store c nlp w file_path corpus_name True v start stop =
       (case ?stored of
          (Some e, w1) \<Rightarrow> (Some e, w1)
        | (None, w1) \<Rightarrow> (if v then vocab_to_disk_step c w1 else (None, w1)))" for v
    using assms(1,2) sl suf by (rule run_stores)
  have full: "start = 0 \<and> (stop = None \<or> stop = Some 0) \<longrightarrow> suffix = ''_nlp''"
    by (cases stop) (auto simp: suffix_def start_or_stop_def)
  have sliced: "\<forall>s. stop = Some s \<and> (start \<noteq> 0 \<or> s \<noteq> 0) \<longrightarrow>
        suffix = ''_'' @ format_d start @ ''_'' @ format_d (s - 1) @ ''_nlp''"
    by (auto simp: suffix_def start_or_stop_def)
  have "\<exists>rest. suffix = ''_'' @ rest"
    by (simp add: suffix_def)
  then obtain rest where rest: "suffix = ''_'' @ rest" ..
  have path: "NLP_DIR c \<noteq> [] \<and> last (NLP_DIR c) \<noteq> CHR ''/'' \<and> \<not> starts_with ''/'' corpus_name \<longrightarrow>
        ?path = NLP_DIR c @ ''/'' @ corpus_name @ suffix @ ''.pickle''"
  proof
    assume a: "NLP_DIR c \<noteq> [] \<and> last (NLP_DIR c) \<noteq> CHR ''/'' \<and> \<not> starts_with ''/'' corpus_name"
    then have "\<not> starts_with ''/'' (corpus_name @ ''_'' @ (rest @ ''.pickle''))"
      by (intro suffix_not_absolute) simp
    with a show "?path = NLP_DIR c @ ''/'' @ corpus_name @ suffix @ ''.pickle''"
      by (simp add: rest join_plain)
  qed
  have written: "fst ?stored = None \<longrightarrow>
        read_process_store c nlp w file_path corpus_name True False start stop =
          (None, snd ?stored) \<and>
        files (snd (read_process_store c nlp w file_path corpus_name True vocab start stop))
          ?path = Some (frame_of df)"
  proof
    assume ok: "fst ?stored = None"
    have plain: "read_process_store c nlp w file_path corpus_name True False start stop =
          (None, snd ?stored)"
      using run [of False] ok by (simp add: case_prod_beta)
    have "files (snd (read_process_store c nlp w file_path corpus_name True vocab start stop)) =
        files (snd ?stored)"
      using run [of vocab] ok
      by (cases vocab) (simp_all add: case_prod_beta files_vocab_to_disk_step)
    with store_done [OF ok] plain
    show "read_process_store c nlp w file_path corpus_name True False start stop =
          (None, snd ?stored) \<and>
        files (snd (read_process_store c nlp w file_path corpus_name True vocab start stop))
          ?path = Some (frame_of df)"
      by simp
  qed
  show ?thesis
    by (intro exI [of _ suffix] conjI) (rule suf full sliced path written)+
qed


theorem output_path_witness:
  "\<exists>df. fst (store example_constants example_world ''corpus'' (frame_of df) ''_5_9_nlp'') = None \<and>
      read_process_store example_constants example_nlp example_world
          ''etl/corpus.pickle'' ''corpus'' True False 5 (Some 10) =
        (None, snd (store example_constants example_world ''corpus'' (frame_of df) ''_5_9_nlp'')) \<and>
      files (snd (read_process_store example_constants example_nlp example_world
          ''etl/corpus.pickle'' ''corpus'' True False 5 (Some 10)))
        ''nlp/corpus_5_9_nlp.pickle'' = Some (frame_of df)"
proof -
  from example_process obtain df where
    pr: "process_docs (PUNCT example_constants) example_nlp
      \<lparr> columns = [TITLE, DESCRIPTION, TEXT],
        tuples = map (\<lambda>n. (PyInt n, [PyStr ''Cat Dog'', PyNone, PyNone])) [5, 6, 7, 8, 9] \<rparr> = Inr df"
    by (auto simp: example_constants_def)
  have ok: "Some (10::int) = None \<longrightarrow> (5::int) = 0" by simp
  from output_path [OF example_read pr ok, of "''corpus''" False] obtain suffix where
    suf: "nlp_suffix 5 (Some 10) = Inr suffix" and
    stored: "fst (store example_constants example_world ''corpus'' (frame_of df) suffix) = None \<longrightarrow>
        read_process_store example_constants example_nlp example_world
            ''etl/corpus.pickle'' ''corpus'' True False 5 (Some 10) =
          (None, snd (store example_constants example_world ''corpus'' (frame_of df) suffix)) \<and>
        files (snd (read_process_store example_constants example_nlp example_world
            ''etl/corpus.pickle'' ''corpus'' True False 5 (Some 10)))
          (join (NLP_DIR example_constants) (''corpus'' @ suffix @ ''.pickle'')) = Some (frame_of df)"
    by (elim exE conjE) (rule that, assumption+)
  from suf have suffix: "suffix = ''_5_9_nlp''"
    by (simp add: nlp_suffix_def start_or_stop_def format_d_def digits.simps)
  have path: "join (NLP_DIR example_constants) (''corpus'' @ ''_5_9_nlp'' @ ''.pickle'') =
      ''nlp/corpus_5_9_nlp.pickle''"
    by (simp add: join_def example_constants_def)
  from stored [unfolded suffix path] example_store [of "frame_of df"]
  have res: "read_process_store example_constants example_nlp example_world
          ''etl/corpus.pickle'' ''corpus'' True False 5 (Some 10) =
        (None, snd (store example_constants example_world ''corpus'' (frame_of df) ''_5_9_nlp'')) \<and>
      files (snd (read_process_store example_constants example_nlp example_world
          ''etl/corpus.pickle'' ''corpus'' True False 5 (Some 10)))
        ''nlp/corpus_5_9_nlp.pickle'' = Some (frame_of df)"
    by (rule mp)
  show ?thesis
  proof (intro exI [of _ df] conjI)
    show "fst (store example_constants example_world ''corpus'' (frame_of df) ''_5_9_nlp'') = None"
      by (rule example_store)
    show "read_process_store example_constants example_nlp example_world
          ''etl/corpus.pickle'' ''corpus'' True False 5 (Some 10) =
        (None, snd (store example_constants example_world ''corpus'' (frame_of df) ''_5_9_nlp''))"
      using res by (rule conjunct1)
    show "files (snd (read_process_store example_constants example_nlp example_world
          ''etl/corpus.pickle'' ''corpus'' True False 5 (Some 10)))
        ''nlp/corpus_5_9_nlp.pickle'' = Some (frame_of df)"
      using res by (rule conjunct2)
  qed
qed

subsection \<open>Storing and reading back\<close>

text \<open>
  C9, as stated, asks that \<^verbatim>\<open>read\<close> return the table that \<^verbatim>\<open>store\<close> wrote. For the token
  table of the example records, \<^verbatim>\<open>store\<close> writes the file \<^verbatim>\<open>nlp/corpus_nlp.pickle\<close>, and
  \<^verbatim>\<open>read\<close> of that file raises a KeyError: it selects the title and description columns
  (line 138), which a token table does not have.
\<close>

theorem store_then_read_counterexample:
  "fst (store example_constants example_world ''corpus''
        (frame_of (df_from_docs ''PUNCT'' example_rows)) ''_nlp'') = None \<and>
   join (NLP_DIR example_constants) (''corpus'' @ ''_nlp'' @ ''.pickle'') = ''nlp/corpus_nlp.pickle'' \<and>
   read example_constants
     (snd (store example_constants example_world ''corpus''
        (frame_of (df_from_docs ''PUNCT'' example_rows)) ''_nlp''))
     ''nlp/corpus_nlp.pickle'' 0 None = Inl KeyError"
  by code_simp

text \<open>
  C9, amended. For every token table: whenever \<^verbatim>\<open>store\<close> writes it without raising,
  reading the stored file back with \<^verbatim>\<open>read\<close> does not yield the table, whatever the range:
  \<^verbatim>\<open>read\<close> raises a KeyError, because a token table has no title and no description column.
\<close>

theorem store_then_read:
  "fst (store c w corpus (frame_of t) suffix) = None \<Longrightarrow>
     read c (snd (store c w corpus (frame_of t) suffix))
       (join (NLP_DIR c) (corpus @ suffix @ ''.pickle'')) start stop = Inl KeyError"
proof -
  assume "fst (store c w corpus (frame_of t) suffix) = None"
  then have "files (snd (store c w corpus (frame_of t) suffix))
       (join (NLP_DIR c) (corpus @ suffix @ ''.pickle'')) = Some (frame_of t)"
    by (rule store_done)
  moreover have "getitem_columns (frame_of t) [TITLE, DESCRIPTION, TEXT] = Inl KeyError"
    by (simp add: getitem_columns_def frame_of_def FIELDS_def)
  ultimately show ?thesis by (simp add: read_def)
qed

theorem store_then_read_witness:
  "fst (store example_constants example_world ''corpus''
        (frame_of (df_from_docs ''PUNCT'' symbol_rows)) ''_5_9_nlp'') = None \<and>
   read example_constants
     (snd (store example_constants example_world ''corpus''
        (frame_of (df_from_docs ''PUNCT'' symbol_rows)) ''_5_9_nlp''))
     ''nlp/corpus_5_9_nlp.pickle'' 2 (Some 4) = Inl KeyError"
proof -
  have path: "join (NLP_DIR example_constants) (''corpus'' @ ''_5_9_nlp'' @ ''.pickle'') =
      ''nlp/corpus_5_9_nlp.pickle''"
    by (simp add: join_def example_constants_def)
  from store_then_read [OF example_store, of "df_from_docs ''PUNCT'' symbol_rows" 2 "Some 4"]
    example_store [of "frame_of (df_from_docs ''PUNCT'' symbol_rows)"]
  show ?thesis unfolding path by simp
qed

subsection \<open>A start without a stop\<close>

text \<open>
  C10, as stated, places the failure of a run with \<^verbatim>\<open>start=5\<close> and no \<^verbatim>\<open>stop\<close> in the suffix
  computation (\<^verbatim>\<open>stop-1\<close>, line 66). The run ends earlier, at line 48, where
  \<^verbatim>\<open>'{:d}'.format(None)\<close> raises its TypeError: the suffix computation would raise another
  one, and is never reached.
\<close>

theorem unset_stop_fails_counterexample:
  "read_process_store example_constants example_nlp example_world
     ''etl/corpus.pickle'' ''corpus'' True False 5 None = (Some FormatTypeError, example_world) \<and>
   nlp_suffix 5 None = Inl OperandTypeError \<and>
   FormatTypeError \<noteq> OperandTypeError"
  by (simp add: read_process_store_def slicing_def nlp_suffix_def start_or_stop_def)


text \<open>
  C10, amended. Every run with a \<^verbatim>\<open>start\<close> other than 0 and no \<^verbatim>\<open>stop\<close>, with or without
  storing, ends with the TypeError of the format of line 48, before the source is read;
  the file system is left as it was, so no output file is produced.
\<close>

theorem unset_stop_fails:
  "start \<noteq> 0 \<Longrightarrow>
     slicing start None = Inl FormatTypeError \<and>
     read_process_store c nlp w file_path corpus_name store_flag vocab start None =
       (Some FormatTypeError, w)"
  by (simp add: read_process_store_def slicing_def start_or_stop_def)

theorem unset_stop_fails_witness:
  "read_process_store example_constants example_nlp example_world
     ''etl/corpus.pickle'' ''corpus'' True True 7 None = (Some FormatTypeError, example_world)"
  using unset_stop_fails [of 7 example_constants example_nlp example_world
      "''etl/corpus.pickle''" "''corpus''" True True]
  by simp

end
